theory Spec2Isabelle
  imports Complex_Main "HOL-Library.Product_Lexorder"
begin

section \<open>Data model\<close>

text \<open>
  The persisted entities of the backend (Mongoose schemas \<open>Product\<close>, \<open>Sale\<close>,
  \<open>Expense\<close>, \<open>User\<close>), restricted to the fields the dashboard, the alerts and the
  model hooks read or write. String enumerations of the schemas are datatypes. A
  \<open>Number\<close> field holding money is given by the numeral that was sent for it, a \<open>real\<close>; the
  store holds its double, and what is computed from it is a \<open>number\<close> of the section on
  arithmetic below. Quantities
  and counts, which the routes validate with \<open>isInt\<close>, are \<open>int\<close>. An \<open>ObjectId\<close> is a
  \<open>nat\<close>. A \<open>Date\<close> is its time value: milliseconds since the epoch.
\<close>

type_synonym objectId = nat
type_synonym time_value = int

datatype currency = GBP | USD | EUR

datatype platform = Vinted | Depop | Ebay | Facebook | Instagram | In_person | Other_platform

datatype sale_status = Pending | Paid | Shipped | Delivered | Completed | Cancelled | Refunded

datatype product_status = Active | Low_stock | Out_of_stock | Archived

datatype subscription_type = Free | Pro

datatype expense_category =
    Product_Cost | Packaging | Shipping | Platform_Fees | Marketing_Ads | Equipment
  | Office_Supplies | Travel | Storage | Professional_Services | Other_category

record product =
  product_id :: objectId
  product_user :: objectId
  product_name :: string
  product_sku :: string
  purchasePrice :: real
  inventory_quantity :: int
  inventory_restockThreshold :: int
  product_status :: product_status
  analytics_totalSales :: int
  product_isArchived :: bool

record fees =
  platformFee :: real
  paymentFee :: real
  shippingFee :: real
  promotionDiscount :: real
  other :: real

record sale =
  sale_id :: objectId
  sale_user :: objectId
  sale_product :: objectId
  sale_quantity :: int
  salePrice :: real
  sale_currency :: currency
  sale_platform :: platform
  sale_fees :: fees
  saleDate :: time_value
  sale_status :: sale_status
  returns_isReturned :: bool
  sale_isArchived :: bool

record expense =
  expense_id :: objectId
  expense_user :: objectId
  amount :: real
  expense_currency :: currency
  expense_category :: expense_category
  expense_date :: time_value
  expense_isArchived :: bool

record user =
  user_id :: objectId
  user_currency :: currency
  subscription_type :: subscription_type

text \<open>The three collections of the document store, each in insertion order.\<close>

record db =
  products :: "product list"
  sales :: "sale list"
  expenses :: "expense list"

section \<open>Inventory status hook of the Product model\<close>

text \<open>
  \<open>productSchema.pre('save')\<close>: the status is recomputed from the quantity and the restock
  threshold each time a Product document is saved.
\<close>

definition product_pre_save :: "product \<Rightarrow> product" where
  "product_pre_save p =
     (if inventory_quantity p = 0 then p\<lparr>product_status := Out_of_stock\<rparr>
      else if inventory_quantity p \<le> inventory_restockThreshold p
        then p\<lparr>product_status := Low_stock\<rparr>
      else p\<lparr>product_status := Active\<rparr>)"

section \<open>Writes to the store\<close>

datatype error = ValidationError

text \<open>
  \<open>Product.findByIdAndUpdate(id, {$inc: {'inventory.quantity': dq, 'analytics.totalSales': dt}})\<close>:
  an update query on the first document with that \<open>_id\<close>. It writes the two named fields and
  nothing else; being a query, it runs neither the schema validators nor the \<open>save\<close> hooks.
  With no such document it changes nothing.
\<close>

fun Product_findByIdAndUpdate_inc :: "objectId \<Rightarrow> int \<Rightarrow> int \<Rightarrow> product list \<Rightarrow> product list" where
  "Product_findByIdAndUpdate_inc pid dq dt [] = []"
| "Product_findByIdAndUpdate_inc pid dq dt (p # ps) =
     (if product_id p = pid
      then p\<lparr>inventory_quantity := inventory_quantity p + dq,
             analytics_totalSales := analytics_totalSales p + dt\<rparr> # ps
      else p # Product_findByIdAndUpdate_inc pid dq dt ps)"

definition Product_findById :: "objectId \<Rightarrow> product list \<Rightarrow> product option" where
  "Product_findById pid ps = find (\<lambda>p. product_id p = pid) ps"

text \<open>\<open>saleSchema.post('save')\<close>: the inventory decrement of a completed, not returned sale.\<close>

definition sale_post_save :: "sale \<Rightarrow> db \<Rightarrow> db" where
  "sale_post_save s d =
     (if sale_status s = Completed \<and> \<not> returns_isReturned s
      then d\<lparr>products :=
             Product_findByIdAndUpdate_inc (sale_product s) (- sale_quantity s) (sale_quantity s)
               (products d)\<rparr>
      else d)"

text \<open>
  \<open>saleSchema.post('findOneAndUpdate')\<close>: the inventory restore, run after every
  \<open>Sale.findOneAndUpdate\<close> with the document the query returned (\<open>None\<close> for \<open>null\<close>).
\<close>

definition sale_post_findOneAndUpdate :: "sale option \<Rightarrow> db \<Rightarrow> db" where
  "sale_post_findOneAndUpdate doc d =
     (case doc of
        None \<Rightarrow> d
      | Some s \<Rightarrow>
          if sale_status s = Cancelled \<or> sale_status s = Refunded
          then d\<lparr>products :=
                 Product_findByIdAndUpdate_inc (sale_product s) (sale_quantity s) (- sale_quantity s)
                   (products d)\<rparr>
          else d)"

text \<open>
  \<open>trim: true\<close> of a schema string: the value is stored without leading and trailing white
  space (the ASCII white space characters; strings are byte lists here).
\<close>

definition is_space :: "char \<Rightarrow> bool" where
  "is_space c \<longleftrightarrow> c \<in> set [CHR 0x09, CHR 0x0A, CHR 0x0B, CHR 0x0C, CHR 0x0D, CHR 0x20]"

definition trim :: "string \<Rightarrow> string" where
  "trim s = rev (dropWhile is_space (rev (dropWhile is_space s)))"

text \<open>
  The schema validators that \<open>save\<close> runs before anything is written: \<open>min\<close> bounds of the
  numeric fields (the enumerations are the datatypes; \<open>required\<close> strings are non-empty, the
  product name after trimming).
\<close>

definition Sale_validate :: "sale \<Rightarrow> bool" where
  "Sale_validate s \<longleftrightarrow> 1 \<le> sale_quantity s \<and> 0 \<le> salePrice s"

definition Product_validate :: "product \<Rightarrow> bool" where
  "Product_validate p \<longleftrightarrow>
     trim (product_name p) \<noteq> [] \<and> product_sku p \<noteq> [] \<and> 0 \<le> purchasePrice p
     \<and> 0 \<le> inventory_quantity p \<and> 0 \<le> inventory_restockThreshold p"

text \<open>Storing a document: it replaces the stored document with its \<open>_id\<close>, or is appended.\<close>

fun store_doc :: "('a \<Rightarrow> objectId) \<Rightarrow> 'a \<Rightarrow> 'a list \<Rightarrow> 'a list" where
  "store_doc ident x [] = [x]"
| "store_doc ident x (y # ys) =
     (if ident y = ident x then x # ys else y # store_doc ident x ys)"

text \<open>
  \<open>sale.save()\<close>: validation, the write of the Sale document, then the \<open>post('save')\<close> hook.
  The hooks run on every call of \<open>save\<close>, also for a document that was saved before.
\<close>

definition Sale_save :: "sale \<Rightarrow> db \<Rightarrow> error + db" where
  "Sale_save s d =
     (if \<not> Sale_validate s then Inl ValidationError
      else Inr (sale_post_save s (d\<lparr>sales := store_doc sale_id s (sales d)\<rparr>)))"

text \<open>
  \<open>product.save()\<close>: validation, the status hook, then the write of the document with its
  name trimmed. (The second \<open>pre('save')\<close> hook fills in a missing SKU; validation has already
  rejected a missing SKU by then, so it never changes a document that reaches it.)
\<close>

definition Product_save :: "product \<Rightarrow> db \<Rightarrow> error + db" where
  "Product_save p d =
     (if \<not> Product_validate p then Inl ValidationError
      else Inr (d\<lparr>products :=
             store_doc product_id (product_pre_save (p\<lparr>product_name := trim (product_name p)\<rparr>))
               (products d)\<rparr>))"

text \<open>Saving the same Sale document twice in a row.\<close>

definition Sale_save_twice :: "sale \<Rightarrow> db \<Rightarrow> error + db" where
  "Sale_save_twice s d = (case Sale_save s d of Inl e \<Rightarrow> Inl e | Inr d' \<Rightarrow> Sale_save s d')"

text \<open>What a reader of the store sees of one product: its quantity and its status.\<close>

definition stock_of :: "objectId \<Rightarrow> error + db \<Rightarrow> (int \<times> product_status) option" where
  "stock_of pid r =
     (case r of
        Inl e \<Rightarrow> None
      | Inr d \<Rightarrow> map_option (\<lambda>p. (inventory_quantity p, product_status p))
                  (Product_findById pid (products d)))"

text \<open>The quantity alone.\<close>

definition quantity_of :: "objectId \<Rightarrow> error + db \<Rightarrow> int option" where
  "quantity_of pid r =
     (case r of
        Inl e \<Rightarrow> None
      | Inr d \<Rightarrow> map_option inventory_quantity (Product_findById pid (products d)))"

section \<open>Arithmetic on numbers\<close>

text \<open>
  A JavaScript number is a finite double, an infinity or \<open>NaN\<close>; a finite double is given by
  its value. The sign of a zero is not kept: it could only be seen through a division by a
  zero, and the handlers divide by numbers greater than 0 only.
\<close>

datatype number = Num real | PosInfinity | NegInfinity | NaN

text \<open>
  Rounding to the nearest double, a tie going to the even significand: the magnitude is scaled
  by powers of two into the range of 53-bit significands, the exponent not going below that of
  the subnormal numbers, and rounded to an integer there; what reaches \<open>2\<^sup>1\<^sup>0\<^sup>2\<^sup>4\<close> overflows.
\<close>

definition round_half_even :: "real \<Rightarrow> int" where
  "round_half_even y =
     (let n = \<lfloor>y\<rfloor>; r = y - of_int n in
      if r < 1 / 2 then n else if 1 / 2 < r then n + 1 else if even n then n else n + 1)"

function scale_down :: "real \<Rightarrow> int \<Rightarrow> real \<times> int" where
  "scale_down y e = (if 2 ^ 53 \<le> y then scale_down (y / 2) (e + 1) else (y, e))"
  by pat_completeness auto
termination
proof (relation "measure (\<lambda>(y, e). nat \<lfloor>y\<rfloor>)")
  show "wf (measure (\<lambda>(y, e). nat \<lfloor>y\<rfloor>))" by simp
next
  fix y :: real and e :: int
  assume big: "2 ^ 53 \<le> y"
  then have "y / 2 \<le> y - 1" by simp
  then have "\<lfloor>y / 2\<rfloor> \<le> \<lfloor>y - 1\<rfloor>" by (rule floor_mono)
  moreover have "0 < \<lfloor>y\<rfloor>" using big by simp
  ultimately show "((y / 2, e + 1), (y, e)) \<in> measure (\<lambda>(y, e). nat \<lfloor>y\<rfloor>)" by simp
qed

function scale_up :: "real \<Rightarrow> int \<Rightarrow> real \<times> int" where
  "scale_up y e = (if y < 2 ^ 52 \<and> - 1074 < e then scale_up (y * 2) (e - 1) else (y, e))"
  by pat_completeness auto
termination
  by (relation "measure (\<lambda>(y, e). nat (e + 1074))") auto

declare scale_down.simps [simp del] scale_up.simps [simp del]

definition rnd_pos :: "real \<Rightarrow> number" where
  "rnd_pos x =
     (case scale_down x 0 of (y, e) \<Rightarrow>
        case scale_up y e of (z, k) \<Rightarrow>
          let v = of_int (round_half_even z) * 2 powi k in
          if 2 ^ 1024 \<le> v then PosInfinity else Num v)"

definition fneg :: "number \<Rightarrow> number" where
  "fneg a = (case a of Num x \<Rightarrow> Num (- x) | PosInfinity \<Rightarrow> NegInfinity
             | NegInfinity \<Rightarrow> PosInfinity | NaN \<Rightarrow> NaN)"

definition rnd :: "real \<Rightarrow> number" where
  "rnd x = (if x = 0 then Num 0 else if 0 < x then rnd_pos x else fneg (rnd_pos (- x)))"

text \<open>
  The double that stands for a decimal numeral or an integer is the nearest one. A \<open>Number\<close>
  field of a document holds the double of the numeral it was given (the record field), and a
  count is read as its double.
\<close>

definition double_of :: "real \<Rightarrow> number" where
  "double_of x = rnd x"

definition infinity :: "bool \<Rightarrow> number" where
  "infinity positive = (if positive then PosInfinity else NegInfinity)"

text \<open>The operators \<open>+\<close>, \<open>-\<close>, \<open>*\<close> and \<open>/\<close>: the exact result, rounded.\<close>

fun fadd :: "number \<Rightarrow> number \<Rightarrow> number" where
  "fadd (Num a) (Num b) = rnd (a + b)"
| "fadd NaN b = NaN"
| "fadd a NaN = NaN"
| "fadd PosInfinity NegInfinity = NaN"
| "fadd NegInfinity PosInfinity = NaN"
| "fadd PosInfinity b = PosInfinity"
| "fadd a PosInfinity = PosInfinity"
| "fadd NegInfinity b = NegInfinity"
| "fadd a NegInfinity = NegInfinity"

definition fsub :: "number \<Rightarrow> number \<Rightarrow> number" where
  "fsub a b = fadd a (fneg b)"

fun fmul :: "number \<Rightarrow> number \<Rightarrow> number" where
  "fmul (Num a) (Num b) = rnd (a * b)"
| "fmul NaN b = NaN"
| "fmul a NaN = NaN"
| "fmul (Num a) b = (if a = 0 then NaN else infinity ((0 < a) = (b = PosInfinity)))"
| "fmul a (Num b) = (if b = 0 then NaN else infinity ((0 < b) = (a = PosInfinity)))"
| "fmul a b = infinity (a = b)"

fun fdiv :: "number \<Rightarrow> number \<Rightarrow> number" where
  "fdiv (Num a) (Num b) =
     (if b = 0 then (if a = 0 then NaN else infinity (0 < a)) else rnd (a / b))"
| "fdiv NaN b = NaN"
| "fdiv a NaN = NaN"
| "fdiv (Num a) b = Num 0"
| "fdiv a (Num b) = infinity ((0 \<le> b) = (a = PosInfinity))"
| "fdiv a b = NaN"

text \<open>The comparison \<open>a > 0\<close>, which is false of \<open>NaN\<close>.\<close>

definition gt0 :: "number \<Rightarrow> bool" where
  "gt0 a = (case a of Num x \<Rightarrow> 0 < x | PosInfinity \<Rightarrow> True | NegInfinity \<Rightarrow> False
            | NaN \<Rightarrow> False)"

definition is_finite :: "number \<Rightarrow> bool" where
  "is_finite a = (case a of Num x \<Rightarrow> True | PosInfinity \<Rightarrow> False | NegInfinity \<Rightarrow> False
                  | NaN \<Rightarrow> False)"

text \<open>
  \<open>parseFloat(a.toFixed(2))\<close>. \<open>toFixed(2)\<close> writes the integer number of hundredths nearest
  to the magnitude of the double, the larger one at a tie, with two decimals and the sign;
  \<open>parseFloat\<close> reads the numeral back as the nearest double. A magnitude of \<open>10\<^sup>2\<^sup>1\<close> or
  more, an infinity and \<open>NaN\<close> are written in full and read back as they were. \<open>parseFloat\<close>
  of a number that is already 0 or 100 is that number.
\<close>

definition toFixed2 :: "number \<Rightarrow> number" where
  "toFixed2 a =
     (case a of
        Num x \<Rightarrow>
          if 10 ^ 21 \<le> \<bar>x\<bar> then Num x
          else if x < 0 then fneg (rnd (of_int \<lfloor>- x * 100 + 1 / 2\<rfloor> / 100))
          else rnd (of_int \<lfloor>x * 100 + 1 / 2\<rfloor> / 100)
      | PosInfinity \<Rightarrow> PosInfinity
      | NegInfinity \<Rightarrow> NegInfinity
      | NaN \<Rightarrow> NaN)"

text \<open>
  The \<open>$sum\<close> accumulator and the \<open>$add\<close> expression of the store over doubles: the values
  are added one after the other, starting from 0. \<open>$avg\<close> divides the sum by the count.
\<close>

definition nsum :: "number list \<Rightarrow> number" where
  "nsum xs = foldl fadd (Num 0) xs"

definition navg :: "number list \<Rightarrow> number" where
  "navg xs = fdiv (nsum xs) (double_of (real (length xs)))"

text \<open>
  The order of a \<open>$sort\<close> on a numeric field: \<open>NaN\<close> first, then the numbers from minus
  infinity to infinity. \<open>descending\<close> is the key of the reverse order.
\<close>

definition sort_rank :: "number \<Rightarrow> int \<times> real" where
  "sort_rank a = (case a of NaN \<Rightarrow> (0, 0) | NegInfinity \<Rightarrow> (1, 0) | Num x \<Rightarrow> (2, x)
                  | PosInfinity \<Rightarrow> (3, 0))"

definition descending :: "number \<Rightarrow> int \<times> real" where
  "descending a = (- fst (sort_rank a), - snd (sort_rank a))"

section \<open>Dates\<close>

text \<open>
  The part of the JavaScript \<open>Date\<close> object the dashboard uses, after the abstract operations
  of the language standard, on time values in milliseconds. The standard's bound on time
  values (\<open>\<plusminus>8.64e15\<close> ms) is not modelled.
\<close>

definition msPerDay :: int where
  "msPerDay = 86400000"

definition Day :: "time_value \<Rightarrow> int" where
  "Day t = t div msPerDay"

definition DaysInYear :: "int \<Rightarrow> int" where
  "DaysInYear y =
     (if y mod 4 \<noteq> 0 then 365 else if y mod 100 \<noteq> 0 then 366
      else if y mod 400 \<noteq> 0 then 365 else 366)"

definition DayFromYear :: "int \<Rightarrow> int" where
  "DayFromYear y = 365 * (y - 1970) + (y - 1969) div 4 - (y - 1901) div 100 + (y - 1601) div 400"

text \<open>
  The standard defines \<open>YearFromTime t\<close> as the largest year \<open>y\<close> whose first day is not after
  \<open>t\<close>. It is computed here from an estimate by the mean length of a year, which is off by at
  most one; \<open>YearFromDay_lower\<close>, \<open>YearFromDay_upper\<close> and \<open>YearFromDay_unique\<close> below
  show that the result is that largest year.
\<close>

definition YearFromDay :: "int \<Rightarrow> int" where
  "YearFromDay d =
     (let e = 1970 + (400 * d) div 146097 in
      if DayFromYear (e + 1) \<le> d then e + 1
      else if DayFromYear e \<le> d then e
      else e - 1)"

definition YearFromTime :: "time_value \<Rightarrow> int" where
  "YearFromTime t = YearFromDay (Day t)"

definition InLeapYear :: "time_value \<Rightarrow> int" where
  "InLeapYear t = (if DaysInYear (YearFromTime t) = 366 then 1 else 0)"

definition DayWithinYear :: "time_value \<Rightarrow> int" where
  "DayWithinYear t = Day t - DayFromYear (YearFromTime t)"

text \<open>The day within the year on which month \<open>m\<close> (0 to 11) starts; \<open>L\<close> is 1 in a leap year.\<close>

definition DayFromMonth :: "int \<Rightarrow> int \<Rightarrow> int" where
  "DayFromMonth m L =
     (if m = 0 then 0 else if m = 1 then 31 else if m = 2 then 59 + L
      else if m = 3 then 90 + L else if m = 4 then 120 + L else if m = 5 then 151 + L
      else if m = 6 then 181 + L else if m = 7 then 212 + L else if m = 8 then 243 + L
      else if m = 9 then 273 + L else if m = 10 then 304 + L else 334 + L)"

definition MonthFromTime :: "time_value \<Rightarrow> int" where
  "MonthFromTime t =
     (let d = DayWithinYear t; L = InLeapYear t in
      if d < 31 then 0 else if d < 59 + L then 1 else if d < 90 + L then 2
      else if d < 120 + L then 3 else if d < 151 + L then 4 else if d < 181 + L then 5
      else if d < 212 + L then 6 else if d < 243 + L then 7 else if d < 273 + L then 8
      else if d < 304 + L then 9 else if d < 334 + L then 10 else 11)"

definition DateFromTime :: "time_value \<Rightarrow> int" where
  "DateFromTime t = DayWithinYear t - DayFromMonth (MonthFromTime t) (InLeapYear t) + 1"

definition MakeDay :: "int \<Rightarrow> int \<Rightarrow> int \<Rightarrow> int" where
  "MakeDay year month date =
     (let ym = year + month div 12; mn = month mod 12 in
      DayFromYear ym + DayFromMonth mn (if DaysInYear ym = 366 then 1 else 0) + date - 1)"

definition MakeDate :: "int \<Rightarrow> int \<Rightarrow> time_value" where
  "MakeDate day time = day * msPerDay + time"

text \<open>
  The time zone of the server is part of its environment: the offset of local time from UTC
  in milliseconds, at a UTC time value (\<open>offset_at\<close>) and at a local time value
  (\<open>offset_of_local\<close>), as the standard's \<open>LocalTZA\<close> gives them.
\<close>

record time_zone =
  offset_at :: "time_value \<Rightarrow> int"
  offset_of_local :: "int \<Rightarrow> int"

definition LocalTime :: "time_zone \<Rightarrow> time_value \<Rightarrow> int" where
  "LocalTime tz t = t + offset_at tz t"

definition UTC :: "time_zone \<Rightarrow> int \<Rightarrow> time_value" where
  "UTC tz t = t - offset_of_local tz t"

text \<open>
  \<open>new Date(year, month, date)\<close>: local midnight of that day; a year from 0 to 99 means a
  year of the twentieth century.
\<close>

definition Date_ymd :: "time_zone \<Rightarrow> int \<Rightarrow> int \<Rightarrow> int \<Rightarrow> time_value" where
  "Date_ymd tz year month date =
     (let yr = (if 0 \<le> year \<and> year \<le> 99 then 1900 + year else year)
      in UTC tz (MakeDate (MakeDay yr month date) 0))"

definition getFullYear :: "time_zone \<Rightarrow> time_value \<Rightarrow> int" where
  "getFullYear tz t = YearFromTime (LocalTime tz t)"

definition getMonth :: "time_zone \<Rightarrow> time_value \<Rightarrow> int" where
  "getMonth tz t = MonthFromTime (LocalTime tz t)"

definition getDate :: "time_zone \<Rightarrow> time_value \<Rightarrow> int" where
  "getDate tz t = DateFromTime (LocalTime tz t)"

section \<open>Period of the dashboard\<close>

datatype period = Week | Month | Quarter | Year

text \<open>
  The \<open>switch (period)\<close> of \<open>GET /api/dashboard\<close>; \<open>Math.floor(now.getMonth() / 3)\<close> is the
  integer quotient, the month being non-negative.
\<close>

definition startDate :: "time_zone \<Rightarrow> period \<Rightarrow> time_value \<Rightarrow> time_value" where
  "startDate tz period now =
     (case period of
        Week \<Rightarrow> now - 7 * 24 * 60 * 60 * 1000
      | Quarter \<Rightarrow> Date_ymd tz (getFullYear tz now) (getMonth tz now div 3 * 3) 1
      | Year \<Rightarrow> Date_ymd tz (getFullYear tz now) 0 1
      | Month \<Rightarrow> Date_ymd tz (getFullYear tz now) (getMonth tz now) 1)"

text \<open>\<open>previousPeriodStart\<close>: the start moved back by the length of the period so far.\<close>

definition previousPeriodStart :: "time_value \<Rightarrow> time_value \<Rightarrow> time_value" where
  "previousPeriodStart start now = (let periodLength = now - start in start - periodLength)"

section \<open>Aggregation pipelines\<close>

text \<open>
  A \<open>$group\<close> stage with \<open>_id: null\<close> yields one document for a non-empty input and none for
  an empty one. A \<open>$group\<close> by a key yields one document per distinct key; a \<open>$sort\<close> is a
  stable sort.
\<close>

definition group_all :: "('a list \<Rightarrow> 'b) \<Rightarrow> 'a list \<Rightarrow> 'b list" where
  "group_all acc xs = (if xs = [] then [] else [acc xs])"

definition group_by :: "('a \<Rightarrow> 'k) \<Rightarrow> ('k \<Rightarrow> 'a list \<Rightarrow> 'b) \<Rightarrow> 'a list \<Rightarrow> 'b list" where
  "group_by key acc xs = map (\<lambda>k. acc k (filter (\<lambda>x. key x = k) xs)) (remdups (map key xs))"

text \<open>\<open>xs[0] || dflt\<close> for an array of documents.\<close>

definition first_or :: "'a list \<Rightarrow> 'a \<Rightarrow> 'a" where
  "first_or xs dflt = (case xs of [] \<Rightarrow> dflt | x # _ \<Rightarrow> x)"

record inventory_overview =
  totalProducts :: int
  totalValue :: number
  lowStockItems :: int
  outOfStockItems :: int

record sales_metrics =
  totalSales :: int
  totalRevenue :: number
  totalFees :: number
  averageOrderValue :: number

record expense_metrics =
  totalExpenses :: number
  expenseCount :: int

record previous_metrics =
  previous_totalRevenue :: number
  previous_totalSales :: int

record top_product =
  top_id :: objectId
  top_product :: "product option"
  totalSold :: int
  top_totalRevenue :: number

record platform_row =
  row_platform :: platform
  row_sales :: int
  row_revenue :: number

record trend_row =
  trend_year :: int
  trend_month :: int
  trend_day :: int
  trend_sales :: int
  trend_revenue :: number

record expense_row =
  row_category :: expense_category
  row_amount :: number
  row_count :: int

definition inventoryOverview :: "objectId \<Rightarrow> product list \<Rightarrow> inventory_overview list" where
  "inventoryOverview uid ps =
     group_all (\<lambda>xs.
         \<lparr>totalProducts = int (length xs),
          totalValue = nsum (map (\<lambda>p. double_of (purchasePrice p)) xs),
          lowStockItems = sum_list (map (\<lambda>p. if product_status p = Low_stock then 1 else 0) xs),
          outOfStockItems =
            sum_list (map (\<lambda>p. if product_status p = Out_of_stock then 1 else 0) xs)\<rparr>)
       (filter (\<lambda>p. product_user p = uid \<and> product_isArchived p = False) ps)"

text \<open>The \<open>$add\<close> expression summed into \<open>totalFees\<close>.\<close>

definition fees_add :: "sale \<Rightarrow> number" where
  "fees_add s =
     nsum [double_of (platformFee (sale_fees s)), double_of (paymentFee (sale_fees s)),
           double_of (shippingFee (sale_fees s)), double_of (other (sale_fees s)),
           fmul (double_of (promotionDiscount (sale_fees s))) (Num (- 1))]"

definition salesMetrics ::
  "objectId \<Rightarrow> time_value \<Rightarrow> currency \<Rightarrow> sale list \<Rightarrow> sales_metrics list" where
  "salesMetrics uid start cur ss =
     group_all (\<lambda>xs.
         \<lparr>totalSales = int (length xs),
          totalRevenue = nsum (map (\<lambda>s. double_of (salePrice s)) xs),
          totalFees = nsum (map fees_add xs),
          averageOrderValue = navg (map (\<lambda>s. double_of (salePrice s)) xs)\<rparr>)
       (filter (\<lambda>s. sale_user s = uid \<and> sale_isArchived s = False \<and> start \<le> saleDate s
                   \<and> sale_currency s = cur) ss)"

definition expenseMetrics ::
  "objectId \<Rightarrow> time_value \<Rightarrow> currency \<Rightarrow> expense list \<Rightarrow> expense_metrics list" where
  "expenseMetrics uid start cur es =
     group_all (\<lambda>xs.
         \<lparr>totalExpenses = nsum (map (\<lambda>e. double_of (amount e)) xs),
          expenseCount = int (length xs)\<rparr>)
       (filter (\<lambda>e. expense_user e = uid \<and> expense_isArchived e = False
                   \<and> start \<le> expense_date e \<and> expense_currency e = cur) es)"

definition topProducts ::
  "objectId \<Rightarrow> time_value \<Rightarrow> sale list \<Rightarrow> product list \<Rightarrow> top_product list" where
  "topProducts uid start ss ps =
     map (\<lambda>g. g\<lparr>top_product := Product_findById (top_id g) ps\<rparr>)
       (take 5
         (sort_key (\<lambda>g. - totalSold g)
           (group_by sale_product
              (\<lambda>k xs. \<lparr>top_id = k, top_product = None,
                        totalSold = sum_list (map sale_quantity xs),
                        top_totalRevenue = nsum (map (\<lambda>s. double_of (salePrice s)) xs)\<rparr>)
              (filter (\<lambda>s. sale_user s = uid \<and> sale_isArchived s = False
                          \<and> start \<le> saleDate s) ss))))"

text \<open>The ten latest sales; the product fields that \<open>populate\<close> joins in are left out.\<close>

definition recentSales :: "objectId \<Rightarrow> sale list \<Rightarrow> sale list" where
  "recentSales uid ss =
     take 10 (sort_key (\<lambda>s. - saleDate s)
                (filter (\<lambda>s. sale_user s = uid \<and> sale_isArchived s = False) ss))"

definition platformPerformance :: "objectId \<Rightarrow> time_value \<Rightarrow> sale list \<Rightarrow> platform_row list" where
  "platformPerformance uid start ss =
     sort_key (\<lambda>g. descending (row_revenue g))
       (group_by sale_platform
          (\<lambda>k xs. \<lparr>row_platform = k, row_sales = int (length xs),
                    row_revenue = nsum (map (\<lambda>s. double_of (salePrice s)) xs)\<rparr>)
          (filter (\<lambda>s. sale_user s = uid \<and> sale_isArchived s = False \<and> start \<le> saleDate s) ss))"

definition salesTrend :: "objectId \<Rightarrow> time_value \<Rightarrow> sale list \<Rightarrow> trend_row list" where
  "salesTrend uid start ss =
     sort_key (\<lambda>g. (trend_year g, trend_month g, trend_day g))
       (group_by (\<lambda>s. (YearFromTime (saleDate s), MonthFromTime (saleDate s) + 1,
                        DateFromTime (saleDate s)))
          (\<lambda>k xs. \<lparr>trend_year = fst k, trend_month = fst (snd k), trend_day = snd (snd k),
                    trend_sales = int (length xs),
                    trend_revenue = nsum (map (\<lambda>s. double_of (salePrice s)) xs)\<rparr>)
          (filter (\<lambda>s. sale_user s = uid \<and> sale_isArchived s = False \<and> start \<le> saleDate s) ss))"

definition expenseBreakdown :: "objectId \<Rightarrow> time_value \<Rightarrow> expense list \<Rightarrow> expense_row list" where
  "expenseBreakdown uid start es =
     sort_key (\<lambda>g. descending (row_amount g))
       (group_by expense_category
          (\<lambda>k xs. \<lparr>row_category = k, row_amount = nsum (map (\<lambda>e. double_of (amount e)) xs),
                    row_count = int (length xs)\<rparr>)
          (filter (\<lambda>e. expense_user e = uid \<and> expense_isArchived e = False
                      \<and> start \<le> expense_date e) es))"

definition previousSalesMetrics ::
  "objectId \<Rightarrow> time_value \<Rightarrow> time_value \<Rightarrow> currency \<Rightarrow> sale list \<Rightarrow> previous_metrics list" where
  "previousSalesMetrics uid prev start cur ss =
     group_all (\<lambda>xs.
         \<lparr>previous_totalRevenue = nsum (map (\<lambda>s. double_of (salePrice s)) xs),
          previous_totalSales = int (length xs)\<rparr>)
       (filter (\<lambda>s. sale_user s = uid \<and> sale_isArchived s = False
                   \<and> prev \<le> saleDate s \<and> saleDate s < start \<and> sale_currency s = cur) ss)"

section \<open>Derived figures\<close>

text \<open>
  The arithmetic of the handler on the aggregated figures.
\<close>

definition netRevenue :: "sales_metrics \<Rightarrow> number" where
  "netRevenue salesData = fsub (totalRevenue salesData) (totalFees salesData)"

definition netProfit :: "sales_metrics \<Rightarrow> expense_metrics \<Rightarrow> number" where
  "netProfit salesData expenseData = fsub (netRevenue salesData) (totalExpenses expenseData)"

definition profitMargin :: "sales_metrics \<Rightarrow> expense_metrics \<Rightarrow> number" where
  "profitMargin salesData expenseData =
     (if gt0 (netRevenue salesData)
      then toFixed2 (fmul (fdiv (netProfit salesData expenseData) (netRevenue salesData))
                       (Num 100))
      else Num 0)"

definition revenueGrowth :: "sales_metrics \<Rightarrow> previous_metrics \<Rightarrow> number" where
  "revenueGrowth salesData previousData =
     (if gt0 (previous_totalRevenue previousData)
      then toFixed2 (fmul (fdiv (fsub (totalRevenue salesData)
                                   (previous_totalRevenue previousData))
                             (previous_totalRevenue previousData))
                       (Num 100))
      else if gt0 (totalRevenue salesData) then Num 100 else Num 0)"

definition salesGrowth :: "sales_metrics \<Rightarrow> previous_metrics \<Rightarrow> number" where
  "salesGrowth salesData previousData =
     (if previous_totalSales previousData > 0
      then toFixed2 (fmul (fdiv (fsub (double_of (of_int (totalSales salesData)))
                                   (double_of (of_int (previous_totalSales previousData))))
                             (double_of (of_int (previous_totalSales previousData))))
                       (Num 100))
      else if totalSales salesData > 0 then Num 100 else Num 0)"

text \<open>
  The ratio \<open>a / b \<times> 100\<close> as the specification writes it for growth and margin, evaluated
  in double arithmetic; the handler's figures are compared with it below.
\<close>

definition percent_of :: "number \<Rightarrow> number \<Rightarrow> number" where
  "percent_of a b = fmul (fdiv a b) (Num 100)"

section \<open>The dashboard route\<close>

record dashboard_payload =
  period_type :: period
  period_startDate :: time_value
  period_endDate :: time_value
  metrics_inventory :: inventory_overview
  metrics_sales :: sales_metrics
  sales_netRevenue :: number
  sales_growth :: number
  metrics_expenses :: expense_metrics
  profit_netProfit :: number
  profit_profitMargin :: number
  profit_revenueGrowth :: number
  charts_salesTrend :: "trend_row list"
  charts_platformPerformance :: "platform_row list"
  charts_expenseBreakdown :: "expense_row list"
  insights_topProducts :: "top_product list"
  insights_recentSales :: "sale list"

text \<open>
  \<open>GET /api/dashboard\<close> for the authenticated user \<open>u\<close>, with the optional query parameters
  \<open>period\<close> and \<open>currency\<close> (values outside the enumerations are rejected before the handler
  body and are excluded by the types), at the clock reading \<open>now\<close> of a server in the time
  zone \<open>tz\<close>.
\<close>

definition dashboard ::
  "time_zone \<Rightarrow> user \<Rightarrow> period option \<Rightarrow> currency option \<Rightarrow> time_value \<Rightarrow> db
     \<Rightarrow> dashboard_payload" where
  "dashboard tz u query_period query_currency now d =
     (let period = (case query_period of None \<Rightarrow> Month | Some p \<Rightarrow> p);
          currency = (case query_currency of None \<Rightarrow> user_currency u | Some c \<Rightarrow> c);
          start = startDate tz period now;
          salesData = first_or (salesMetrics (user_id u) start currency (sales d))
            \<lparr>totalSales = 0, totalRevenue = Num 0, totalFees = Num 0,
             averageOrderValue = Num 0\<rparr>;
          expenseData = first_or (expenseMetrics (user_id u) start currency (expenses d))
            \<lparr>totalExpenses = Num 0, expenseCount = 0\<rparr>;
          inventoryData = first_or (inventoryOverview (user_id u) (products d))
            \<lparr>totalProducts = 0, totalValue = Num 0, lowStockItems = 0, outOfStockItems = 0\<rparr>;
          previousData = first_or
            (previousSalesMetrics (user_id u) (previousPeriodStart start now) start currency
               (sales d))
            \<lparr>previous_totalRevenue = Num 0, previous_totalSales = 0\<rparr>
      in \<lparr>period_type = period,
          period_startDate = start,
          period_endDate = now,
          metrics_inventory = inventoryData,
          metrics_sales = salesData,
          sales_netRevenue = netRevenue salesData,
          sales_growth = salesGrowth salesData previousData,
          metrics_expenses = expenseData,
          profit_netProfit = netProfit salesData expenseData,
          profit_profitMargin = profitMargin salesData expenseData,
          profit_revenueGrowth = revenueGrowth salesData previousData,
          charts_salesTrend = salesTrend (user_id u) start (sales d),
          charts_platformPerformance = platformPerformance (user_id u) start (sales d),
          charts_expenseBreakdown = expenseBreakdown (user_id u) start (expenses d),
          insights_topProducts = topProducts (user_id u) start (sales d) (products d),
          insights_recentSales = take 5 (recentSales (user_id u) (sales d))\<rparr>)"

section \<open>The alerts route\<close>

datatype alert_type = Low_stock_alert | Out_of_stock_alert | Subscription_limit | Pending_sales

datatype severity = Warning | Error | Info

text \<open>The fields of a Product that the low-stock query selects.\<close>

record low_stock_item =
  item_id :: objectId
  item_name :: string
  item_sku :: string
  item_quantity :: int
  item_restockThreshold :: int

datatype alert_data =
    No_data
  | Low_stock_products "low_stock_item list"
  | Limit_data (currentCount: int) (limit: int)

record alert =
  alert_type :: alert_type
  severity :: severity
  title :: string
  message :: string
  data :: alert_data
  actionRequired :: bool

text \<open>A count as a template literal prints it: in decimal.\<close>

fun decimal :: "nat \<Rightarrow> string" where
  "decimal n =
     (if n < 10 then [''0123456789'' ! n]
      else decimal (n div 10) @ [''0123456789'' ! (n mod 10)])"

definition select_item :: "product \<Rightarrow> low_stock_item" where
  "select_item p =
     \<lparr>item_id = product_id p, item_name = product_name p, item_sku = product_sku p,
      item_quantity = inventory_quantity p,
      item_restockThreshold = inventory_restockThreshold p\<rparr>"

text \<open>\<open>Product.countDocuments({user, isArchived: false})\<close>.\<close>

definition productCount :: "user \<Rightarrow> db \<Rightarrow> nat" where
  "productCount u d =
     length (filter (\<lambda>p. product_user p = user_id u \<and> product_isArchived p = False) (products d))"

text \<open>\<open>GET /api/dashboard/alerts\<close>: the four checks in order, each pushing at most one alert.\<close>

definition alerts :: "user \<Rightarrow> db \<Rightarrow> alert list" where
  "alerts u d =
     (let lowStockProducts =
            take 10 (filter (\<lambda>p. product_user p = user_id u \<and> product_isArchived p = False
                                  \<and> product_status p = Low_stock) (products d));
          outOfStockCount =
            length (filter (\<lambda>p. product_user p = user_id u \<and> product_isArchived p = False
                                 \<and> product_status p = Out_of_stock) (products d));
          pendingSalesCount =
            length (filter (\<lambda>s. sale_user s = user_id u \<and> sale_isArchived s = False
                                 \<and> sale_status s \<in> {Pending, Paid}) (sales d))
      in (if length lowStockProducts > 0
          then [\<lparr>alert_type = Low_stock_alert, severity = Warning, title = ''Low Stock Alert'',
                  message = decimal (length lowStockProducts)
                            @ '' product(s) are running low on stock'',
                  data = Low_stock_products (map select_item lowStockProducts),
                  actionRequired = True\<rparr>]
          else [])
       @ (if outOfStockCount > 0
          then [\<lparr>alert_type = Out_of_stock_alert, severity = Error, title = ''Out of Stock'',
                  message = decimal outOfStockCount @ '' product(s) are out of stock'',
                  data = No_data, actionRequired = True\<rparr>]
          else [])
       @ (if subscription_type u = Free
          then (if productCount u d \<ge> 80
                then [\<lparr>alert_type = Subscription_limit, severity = Info,
                        title = ''Approaching Product Limit'',
                        message = ''You have '' @ decimal (productCount u d)
                          @ ''/100 products. Upgrade to Pro for unlimited inventory.'',
                        data = Limit_data (int (productCount u d)) 100,
                        actionRequired = False\<rparr>]
                else [])
          else [])
       @ (if pendingSalesCount > 0
          then [\<lparr>alert_type = Pending_sales, severity = Info, title = ''Pending Sales'',
                  message = ''You have '' @ decimal pendingSalesCount
                            @ '' sale(s) that need attention'',
                  data = No_data, actionRequired = True\<rparr>]
          else []))"

text \<open>The alerts of one type in a response.\<close>

definition alerts_of_type :: "alert_type \<Rightarrow> alert list \<Rightarrow> alert list" where
  "alerts_of_type ty as = filter (\<lambda>a. alert_type a = ty) as"

section \<open>Concrete documents\<close>

definition shirt :: product where
  "shirt = \<lparr>product_id = 1, product_user = 7, product_name = ''Shirt'', product_sku = ''LOFT-1'',
            purchasePrice = 25, inventory_quantity = 5, inventory_restockThreshold = 2,
            product_status = Active, analytics_totalSales = 0, product_isArchived = False\<rparr>"

definition no_fees :: fees where
  "no_fees = \<lparr>platformFee = 0, paymentFee = 0, shippingFee = 0, promotionDiscount = 0, other = 0\<rparr>"

definition shirt_sale :: sale where
  "shirt_sale = \<lparr>sale_id = 1, sale_user = 7, sale_product = 1, sale_quantity = 3, salePrice = 45,
                 sale_currency = GBP, sale_platform = Vinted, sale_fees = no_fees,
                 saleDate = 1715688000000, sale_status = Completed, returns_isReturned = False,
                 sale_isArchived = False\<rparr>"

definition empty_db :: db where
  "empty_db = \<lparr>products = [], sales = [], expenses = []\<rparr>"

text \<open>The store after the shirt has been saved as a Product: its status is derived.\<close>

definition shirt_db :: db where
  "shirt_db = (case Product_save shirt empty_db of Inr d \<Rightarrow> d | Inl e \<Rightarrow> empty_db)"

text \<open>A free-tier user, a clock reading (2024-05-15 12:00 UTC) and more sales and expenses.\<close>

definition seller :: user where
  "seller = \<lparr>user_id = 7, user_currency = GBP, subscription_type = Free\<rparr>"

definition noon_15_May_2024 :: time_value where
  "noon_15_May_2024 = 1715774400000"

text \<open>
  Two time zones: UTC, and the rules of New York in 2024, where daylight saving time (UTC-4)
  runs from 10 March 07:00 UTC to 3 November 06:00 UTC and standard time is UTC-5. A local
  time that the clock skips or shows twice is read with the offset before the change.
\<close>

definition utc :: time_zone where
  "utc = \<lparr>offset_at = (\<lambda>t. 0), offset_of_local = (\<lambda>t. 0)\<rparr>"

definition new_york_2024 :: time_zone where
  "new_york_2024 =
     \<lparr>offset_at = (\<lambda>t. if 1710054000000 \<le> t \<and> t < 1730613600000 then - 14400000
                        else - 18000000),
      offset_of_local = (\<lambda>t. if 1710039600000 \<le> t \<and> t < 1730599200000 then - 14400000
                              else - 18000000)\<rparr>"

text \<open>22:00 on 31 March 2024 in New York, which is 02:00 UTC on 1 April.\<close>

definition late_31_March_2024 :: time_value where
  "late_31_March_2024 = 1711936800000"

definition usd_sale :: sale where
  "usd_sale = shirt_sale\<lparr>sale_id := 2, sale_currency := USD, salePrice := 30\<rparr>"

definition future_sale :: sale where
  "future_sale = shirt_sale\<lparr>sale_id := 3, saleDate := 1715860800000\<rparr>"

definition stamps :: expense where
  "stamps = \<lparr>expense_id = 1, expense_user = 7, amount = 30, expense_currency = GBP,
             expense_category = Shipping, expense_date = 1715688000000,
             expense_isArchived = False\<rparr>"

definition usd_stamps :: expense where
  "usd_stamps = stamps\<lparr>expense_id := 2, expense_currency := USD, amount := 10\<rparr>"

text \<open>Eighty products of the seller.\<close>

definition warehouse :: db where
  "warehouse = \<lparr>products = map (\<lambda>i. shirt\<lparr>product_id := i\<rparr>) [0..<80], sales = [],
                 expenses = []\<rparr>"

section \<open>Properties of the status hook\<close>

text \<open>
  Claim C1. For every quantity and restock threshold that are both at least 0, the status
  computed before a Product save is \<open>out_of_stock\<close> when the quantity is 0, \<open>low_stock\<close> when
  the quantity is positive and at most the threshold, and \<open>active\<close> when the quantity exceeds
  the threshold; the hook is a total function that changes no field but the status.
\<close>

theorem product_pre_save_status:
  "0 \<le> inventory_quantity p \<Longrightarrow> 0 \<le> inventory_restockThreshold p \<Longrightarrow>
     product_pre_save p = p\<lparr>product_status := product_status (product_pre_save p)\<rparr>
     \<and> (inventory_quantity p = 0 \<longrightarrow> product_status (product_pre_save p) = Out_of_stock)
     \<and> (0 < inventory_quantity p \<and> inventory_quantity p \<le> inventory_restockThreshold p
          \<longrightarrow> product_status (product_pre_save p) = Low_stock)
     \<and> (inventory_restockThreshold p < inventory_quantity p
          \<longrightarrow> product_status (product_pre_save p) = Active)"
  by (auto simp: product_pre_save_def)

theorem product_pre_save_status_witness:
  "product_status (product_pre_save (shirt\<lparr>inventory_quantity := 0\<rparr>)) = Out_of_stock
   \<and> product_status (product_pre_save (shirt\<lparr>inventory_quantity := 2\<rparr>)) = Low_stock
   \<and> product_status (product_pre_save shirt) = Active"
  using product_pre_save_status [of "shirt\<lparr>inventory_quantity := 0\<rparr>"]
    product_pre_save_status [of "shirt\<lparr>inventory_quantity := 2\<rparr>"]
    product_pre_save_status [of shirt]
  by (simp add: shirt_def)

section \<open>Properties of the sale hooks\<close>

lemma findById_after_inc:
  "Product_findById pid (Product_findByIdAndUpdate_inc pid dq dt ps) =
     map_option (\<lambda>p. p\<lparr>inventory_quantity := inventory_quantity p + dq,
                        analytics_totalSales := analytics_totalSales p + dt\<rparr>)
       (Product_findById pid ps)"
  by (induction ps) (simp_all add: Product_findById_def)

lemma trim_Shirt: "trim ''Shirt'' = ''Shirt''"
  by (simp add: trim_def is_space_def)

lemma shirt_db_eq:
  "shirt_db = \<lparr>products = [shirt], sales = [], expenses = []\<rparr>"
  by (simp add: shirt_db_def Product_save_def Product_validate_def product_pre_save_def
      shirt_def empty_db_def trim_Shirt)

text \<open>
  Claim C2. With a Product of quantity 5 and restock threshold 2 in the store, saving a
  completed, not returned Sale of quantity 3 for it should leave the Product with quantity 2
  and status \<open>low_stock\<close>. The code leaves the quantity at 2 and the status at \<open>active\<close>: the
  decrement is an update query, which does not run the status hook; the hook, had it run on
  the decremented document, would have set \<open>low_stock\<close>.
\<close>

theorem sale_completion_leaves_status_stale:
  "stock_of 1 (Inr shirt_db) = Some (5, Active)
   \<and> stock_of 1 (Sale_save shirt_sale shirt_db) = Some (2, Active)
   \<and> product_status (product_pre_save (shirt\<lparr>inventory_quantity := 2\<rparr>)) = Low_stock"
  by (simp add: shirt_db_eq stock_of_def Sale_save_def Sale_validate_def sale_post_save_def
      Product_findById_def product_pre_save_def shirt_def shirt_sale_def)

text \<open>
  Claim C3, as stated: saving a completed Sale a second time does not decrement the Product's
  quantity again. It fails: the first save of the shirt sale takes the quantity from 5 to 2,
  the second from 2 to -1.
\<close>

theorem sale_completion_not_idempotent:
  "quantity_of 1 (Inr shirt_db) = Some 5
   \<and> quantity_of 1 (Sale_save shirt_sale shirt_db) = Some 2
   \<and> quantity_of 1 (Sale_save_twice shirt_sale shirt_db) = Some (- 1)"
  by (simp add: shirt_db_eq quantity_of_def Sale_save_twice_def Sale_save_def Sale_validate_def
      sale_post_save_def Product_findById_def shirt_def shirt_sale_def)

text \<open>
  Claim C3, amended. The code keeps no record of which sales have had their inventory effect
  applied: every save of a valid Sale that is completed and not returned succeeds and
  decrements the linked Product's quantity by the sale's quantity, so two saves of the same
  Sale decrement it by twice that quantity.
\<close>

theorem sale_save_twice_decrements_twice:
  assumes "Sale_validate s" and "sale_status s = Completed" and "\<not> returns_isReturned s"
  shows "quantity_of (sale_product s) (Sale_save s d) =
           map_option (\<lambda>q. q - sale_quantity s) (quantity_of (sale_product s) (Inr d))
       \<and> quantity_of (sale_product s) (Sale_save_twice s d) =
           map_option (\<lambda>q. q - 2 * sale_quantity s) (quantity_of (sale_product s) (Inr d))"
  using assms
  by (simp add: quantity_of_def Sale_save_twice_def Sale_save_def sale_post_save_def
      findById_after_inc option.map_comp comp_def)

theorem sale_save_twice_decrements_twice_witness:
  "Sale_validate shirt_sale \<and> sale_status shirt_sale = Completed
   \<and> \<not> returns_isReturned shirt_sale
   \<and> quantity_of 1 (Sale_save_twice shirt_sale shirt_db) = Some (5 - 2 * 3)"
  using sale_save_twice_decrements_twice [of shirt_sale shirt_db]
  by (simp add: shirt_db_eq quantity_of_def Sale_validate_def Product_findById_def shirt_def
      shirt_sale_def)

section \<open>Properties of the arithmetic\<close>

text \<open>
  Rounding never gives \<open>NaN\<close> and commutes with negation. What \<open>toFixed(2)\<close> and \<open>parseFloat\<close>
  return for a double below \<open>10\<^sup>2\<^sup>1\<close> in magnitude is the double nearest to a whole number of
  hundredths that is within 0.005 of it.
\<close>

lemma rnd_pos_not_NaN: "rnd_pos x \<noteq> NaN"
  by (simp add: rnd_pos_def Let_def split: prod.splits)

lemma rnd_not_NaN: "rnd x \<noteq> NaN"
  using rnd_pos_not_NaN [of x] rnd_pos_not_NaN [of "- x"]
  by (cases "rnd_pos (- x)") (simp_all add: rnd_def fneg_def)

lemma fneg_fneg: "fneg (fneg a) = a"
  by (cases a) (simp_all add: fneg_def)

lemma rnd_minus: "rnd (- x) = fneg (rnd x)"
  by (simp add: rnd_def fneg_fneg) (simp add: fneg_def)

lemma fneg_not_NaN: "a \<noteq> NaN \<Longrightarrow> fneg a \<noteq> NaN"
  by (cases a) (simp_all add: fneg_def)

lemma toFixed2_not_NaN: "a \<noteq> NaN \<Longrightarrow> toFixed2 a \<noteq> NaN"
  by (cases a) (simp_all add: toFixed2_def rnd_not_NaN fneg_not_NaN)

lemma near_hundredth:
  fixes y :: real
  assumes "real_of_int n \<le> y * 100 + 1 / 2" and "y * 100 + 1 / 2 < real_of_int n + 1"
  shows "\<bar>real_of_int n / 100 - y\<bar> \<le> 1 / 200"
proof -
  have "real_of_int n / 100 - y \<le> 1 / 200" using assms(1) by simp
  moreover have "- (1 / 200) \<le> real_of_int n / 100 - y" using assms(2) by simp
  ultimately show ?thesis by (simp only: abs_le_iff) simp
qed

lemma toFixed2_two_decimals:
  assumes "\<bar>x\<bar> < 10 ^ 21"
  shows "\<exists>k::int. \<bar>real_of_int k / 100 - x\<bar> \<le> 1 / 200
            \<and> toFixed2 (Num x) = rnd (real_of_int k / 100)"
proof (cases "x < 0")
  case True
  define n where "n = \<lfloor>- x * 100 + 1 / 2\<rfloor>"
  have lo: "real_of_int n \<le> - x * 100 + 1 / 2" unfolding n_def by (rule of_int_floor_le)
  have hi: "- x * 100 + 1 / 2 < real_of_int n + 1" unfolding n_def by (rule floor_correct [THEN conjunct2, simplified])
  have "toFixed2 (Num x) = fneg (rnd (real_of_int n / 100))"
    using assms True by (simp add: toFixed2_def n_def)
  also have "\<dots> = rnd (- (real_of_int n / 100))"
    by (rule rnd_minus [symmetric])
  finally have t: "toFixed2 (Num x) = rnd (real_of_int (- n) / 100)" by simp
  have "\<bar>real_of_int n / 100 - (- x)\<bar> \<le> 1 / 200"
    using lo hi by (rule near_hundredth)
  then have "\<bar>real_of_int (- n) / 100 - x\<bar> \<le> 1 / 200"
    by (simp add: abs_minus_commute add.commute)
  with t show ?thesis by blast
next
  case False
  define n where "n = \<lfloor>x * 100 + 1 / 2\<rfloor>"
  have lo: "real_of_int n \<le> x * 100 + 1 / 2" unfolding n_def by (rule of_int_floor_le)
  have hi: "x * 100 + 1 / 2 < real_of_int n + 1" unfolding n_def by (rule floor_correct [THEN conjunct2, simplified])
  have t: "toFixed2 (Num x) = rnd (real_of_int n / 100)"
    using assms False by (simp add: toFixed2_def n_def)
  have "\<bar>real_of_int n / 100 - x\<bar> \<le> 1 / 200"
    using lo hi by (rule near_hundredth)
  with t show ?thesis by blast
qed

lemmas number_eval =
  rnd_def rnd_pos_def scale_down.simps scale_up.simps round_half_even_def fsub_def fneg_def
  toFixed2_def infinity_def nsum_def navg_def gt0_def percent_of_def double_of_def

text \<open>
  The doubles of the model are those of the machine: one third times 100 and 97/160 times
  100, rounded at each step, and the nearest double to 33.33.
\<close>

lemma double_examples:
  "percent_of (Num 1) (Num 3) = Num (2345624805922133 / 2 ^ 46)"
  "percent_of (Num 97) (Num 160) = Num (8532210231541759 / 2 ^ 47)"
  "rnd (3333 / 100) = Num (2345390243441541 / 2 ^ 46)"
  "nsum [double_of (1 / 10), double_of (2 / 10)] = Num (5404319552844596 / 2 ^ 54)"
  by (simp_all add: number_eval)

section \<open>Fields of the dashboard payload\<close>

lemma dashboard_metrics_sales:
  "metrics_sales (dashboard tz u qp qc now d) =
     first_or (salesMetrics (user_id u) (startDate tz (case qp of None \<Rightarrow> Month | Some p \<Rightarrow> p) now)
                 (case qc of None \<Rightarrow> user_currency u | Some c \<Rightarrow> c) (sales d))
       \<lparr>totalSales = 0, totalRevenue = Num 0, totalFees = Num 0, averageOrderValue = Num 0\<rparr>"
  by (simp add: dashboard_def Let_def)

lemma dashboard_metrics_expenses:
  "metrics_expenses (dashboard tz u qp qc now d) =
     first_or (expenseMetrics (user_id u) (startDate tz (case qp of None \<Rightarrow> Month | Some p \<Rightarrow> p) now)
                 (case qc of None \<Rightarrow> user_currency u | Some c \<Rightarrow> c) (expenses d))
       \<lparr>totalExpenses = Num 0, expenseCount = 0\<rparr>"
  by (simp add: dashboard_def Let_def)

lemma dashboard_profit:
  "sales_netRevenue (dashboard tz u qp qc now d) =
     netRevenue (metrics_sales (dashboard tz u qp qc now d))"
  "profit_netProfit (dashboard tz u qp qc now d) =
     netProfit (metrics_sales (dashboard tz u qp qc now d))
       (metrics_expenses (dashboard tz u qp qc now d))"
  "profit_profitMargin (dashboard tz u qp qc now d) =
     profitMargin (metrics_sales (dashboard tz u qp qc now d))
       (metrics_expenses (dashboard tz u qp qc now d))"
  by (simp_all add: dashboard_def Let_def)

lemma dashboard_period:
  "period_type (dashboard tz u qp qc now d) = (case qp of None \<Rightarrow> Month | Some p \<Rightarrow> p)"
  "period_startDate (dashboard tz u qp qc now d) =
     startDate tz (case qp of None \<Rightarrow> Month | Some p \<Rightarrow> p) now"
  "period_endDate (dashboard tz u qp qc now d) = now"
  by (simp_all add: dashboard_def Let_def)

lemma dashboard_charts:
  "charts_platformPerformance (dashboard tz u qp qc now d) =
     platformPerformance (user_id u) (startDate tz (case qp of None \<Rightarrow> Month | Some p \<Rightarrow> p) now)
       (sales d)"
  "charts_expenseBreakdown (dashboard tz u qp qc now d) =
     expenseBreakdown (user_id u) (startDate tz (case qp of None \<Rightarrow> Month | Some p \<Rightarrow> p) now)
       (expenses d)"
  "insights_topProducts (dashboard tz u qp qc now d) =
     topProducts (user_id u) (startDate tz (case qp of None \<Rightarrow> Month | Some p \<Rightarrow> p) now)
       (sales d) (products d)"
  "charts_salesTrend (dashboard tz u qp qc now d) =
     salesTrend (user_id u) (startDate tz (case qp of None \<Rightarrow> Month | Some p \<Rightarrow> p) now)
       (sales d)"
  by (simp_all add: dashboard_def Let_def)

lemma dashboard_growth:
  "profit_revenueGrowth (dashboard tz u qp qc now d) =
     revenueGrowth (metrics_sales (dashboard tz u qp qc now d))
       (first_or
          (previousSalesMetrics (user_id u)
             (previousPeriodStart (period_startDate (dashboard tz u qp qc now d))
                (period_endDate (dashboard tz u qp qc now d)))
             (period_startDate (dashboard tz u qp qc now d))
             (case qc of None \<Rightarrow> user_currency u | Some c \<Rightarrow> c) (sales d))
          \<lparr>previous_totalRevenue = Num 0, previous_totalSales = 0\<rparr>)"
  "sales_growth (dashboard tz u qp qc now d) =
     salesGrowth (metrics_sales (dashboard tz u qp qc now d))
       (first_or
          (previousSalesMetrics (user_id u)
             (previousPeriodStart (period_startDate (dashboard tz u qp qc now d))
                (period_endDate (dashboard tz u qp qc now d)))
             (period_startDate (dashboard tz u qp qc now d))
             (case qc of None \<Rightarrow> user_currency u | Some c \<Rightarrow> c) (sales d))
          \<lparr>previous_totalRevenue = Num 0, previous_totalSales = 0\<rparr>)"
  by (simp_all add: dashboard_def Let_def)

section \<open>Properties of the financial aggregation\<close>

text \<open>
  Claim C5. The sales figures of a period should be taken over the sales dated from its start
  to its end, so that a sale dated at or after the end contributes nothing. The query bounds
  the sale date from below only: with the period ending at noon on 15 May 2024, a sale dated a
  day later is counted, with its price, where the same store without it counts no sale.
\<close>

theorem future_sale_counted:
  "noon_15_May_2024 \<le> saleDate future_sale
   \<and> period_endDate (dashboard tz seller (Some Week) (Some GBP) noon_15_May_2024
         \<lparr>products = [], sales = [future_sale], expenses = []\<rparr>) = noon_15_May_2024
   \<and> totalSales (metrics_sales (dashboard tz seller (Some Week) (Some GBP) noon_15_May_2024
         \<lparr>products = [], sales = [future_sale], expenses = []\<rparr>)) = 1
   \<and> totalRevenue (metrics_sales (dashboard tz seller (Some Week) (Some GBP) noon_15_May_2024
         \<lparr>products = [], sales = [future_sale], expenses = []\<rparr>)) = Num 45
   \<and> totalSales (metrics_sales (dashboard tz seller (Some Week) (Some GBP) noon_15_May_2024
         \<lparr>products = [], sales = [], expenses = []\<rparr>)) = 0"
  unfolding dashboard_metrics_sales dashboard_period
  by (simp add: salesMetrics_def group_all_def first_or_def startDate_def seller_def
      noon_15_May_2024_def future_sale_def shirt_sale_def number_eval)

text \<open>
  Claim C6, as stated: with a positive previous revenue the growth is the relative change
  times 100. It fails: the code rounds the figure with \<open>toFixed(2)\<close>. From 3 to 4 the growth
  returned is the double nearest to 33.33, which is neither the relative change times 100 as
  the doubles give it nor the exact 100/3; likewise for the sale counts.
\<close>

theorem growth_not_exact:
  "revenueGrowth
       \<lparr>totalSales = 4, totalRevenue = Num 4, totalFees = Num 0, averageOrderValue = Num 1\<rparr>
       \<lparr>previous_totalRevenue = Num 3, previous_totalSales = 3\<rparr> = rnd (3333 / 100)
   \<and> salesGrowth
       \<lparr>totalSales = 4, totalRevenue = Num 4, totalFees = Num 0, averageOrderValue = Num 1\<rparr>
       \<lparr>previous_totalRevenue = Num 3, previous_totalSales = 3\<rparr> = rnd (3333 / 100)
   \<and> percent_of (fsub (Num 4) (Num 3)) (Num 3) \<noteq> rnd (3333 / 100)
   \<and> Num ((4 - 3) / 3 * 100) \<noteq> rnd (3333 / 100)"
  by (simp add: revenueGrowth_def salesGrowth_def number_eval)

text \<open>
  Claim C6, amended. When the previous period's revenue is not greater than 0, the revenue
  growth is 100 if the current revenue is greater than 0 and 0 otherwise. When it is greater
  than 0, the revenue growth is the relative change times 100, computed in doubles, rounded
  to two decimals by \<open>toFixed(2)\<close> and read back: for a figure below \<open>10\<^sup>2\<^sup>1\<close> in magnitude, the
  double nearest to a whole number of hundredths within 0.005 of it. The same holds,
  independently, for the sales growth over the sale counts.
\<close>

theorem growth_rounded:
  "(\<not> gt0 (previous_totalRevenue p) \<longrightarrow>
      revenueGrowth c p = (if gt0 (totalRevenue c) then Num 100 else Num 0))
   \<and> (gt0 (previous_totalRevenue p) \<longrightarrow>
      revenueGrowth c p =
        toFixed2 (percent_of (fsub (totalRevenue c) (previous_totalRevenue p))
                    (previous_totalRevenue p)))
   \<and> (\<forall>x. gt0 (previous_totalRevenue p)
          \<and> percent_of (fsub (totalRevenue c) (previous_totalRevenue p))
                (previous_totalRevenue p) = Num x
          \<and> \<bar>x\<bar> < 10 ^ 21 \<longrightarrow>
        (\<exists>k::int. \<bar>real_of_int k / 100 - x\<bar> \<le> 1 / 200
           \<and> revenueGrowth c p = rnd (real_of_int k / 100)))
   \<and> (\<not> 0 < previous_totalSales p \<longrightarrow>
      salesGrowth c p = (if 0 < totalSales c then Num 100 else Num 0))
   \<and> (0 < previous_totalSales p \<longrightarrow>
      salesGrowth c p =
        toFixed2 (percent_of (fsub (double_of (of_int (totalSales c)))
                                (double_of (of_int (previous_totalSales p))))
                    (double_of (of_int (previous_totalSales p)))))
   \<and> (\<forall>x. 0 < previous_totalSales p
          \<and> percent_of (fsub (double_of (of_int (totalSales c)))
                           (double_of (of_int (previous_totalSales p))))
                (double_of (of_int (previous_totalSales p))) = Num x
          \<and> \<bar>x\<bar> < 10 ^ 21 \<longrightarrow>
        (\<exists>k::int. \<bar>real_of_int k / 100 - x\<bar> \<le> 1 / 200
           \<and> salesGrowth c p = rnd (real_of_int k / 100)))"
  using toFixed2_two_decimals
  by (simp add: revenueGrowth_def salesGrowth_def percent_of_def)

theorem growth_rounded_witness:
  "revenueGrowth
       \<lparr>totalSales = 2, totalRevenue = Num 50, totalFees = Num 0, averageOrderValue = Num 25\<rparr>
       \<lparr>previous_totalRevenue = Num 0, previous_totalSales = 0\<rparr> = Num 100
   \<and> revenueGrowth
       \<lparr>totalSales = 0, totalRevenue = Num 0, totalFees = Num 0, averageOrderValue = Num 0\<rparr>
       \<lparr>previous_totalRevenue = Num 0, previous_totalSales = 0\<rparr> = Num 0
   \<and> salesGrowth
       \<lparr>totalSales = 2, totalRevenue = Num 50, totalFees = Num 0, averageOrderValue = Num 25\<rparr>
       \<lparr>previous_totalRevenue = Num 0, previous_totalSales = 0\<rparr> = Num 100
   \<and> gt0 (Num 3)
   \<and> percent_of (fsub (Num 4) (Num 3)) (Num 3) = Num (2345624805922133 / 2 ^ 46)
   \<and> (\<exists>k::int. \<bar>real_of_int k / 100 - 2345624805922133 / 2 ^ 46\<bar> \<le> 1 / 200
         \<and> revenueGrowth
              \<lparr>totalSales = 4, totalRevenue = Num 4, totalFees = Num 0, averageOrderValue = Num 1\<rparr>
              \<lparr>previous_totalRevenue = Num 3, previous_totalSales = 3\<rparr>
             = rnd (real_of_int k / 100))"
proof -
  have q: "percent_of (fsub (Num 4) (Num 3)) (Num 3) = Num (2345624805922133 / 2 ^ 46)"
    by (simp add: number_eval)
  have g: "gt0 (Num 3)" "\<not> gt0 (Num 0)" "gt0 (Num 50)" by (simp_all add: gt0_def)
  have small: "\<bar>2345624805922133 / 2 ^ 46 :: real\<bar> < 10 ^ 21" by simp
  from growth_rounded
      [of "\<lparr>previous_totalRevenue = Num 0, previous_totalSales = 0\<rparr>"
          "\<lparr>totalSales = 2, totalRevenue = Num 50, totalFees = Num 0,
            averageOrderValue = Num 25\<rparr>"] g
  have a: "revenueGrowth
       \<lparr>totalSales = 2, totalRevenue = Num 50, totalFees = Num 0, averageOrderValue = Num 25\<rparr>
       \<lparr>previous_totalRevenue = Num 0, previous_totalSales = 0\<rparr> = Num 100"
    and b: "salesGrowth
       \<lparr>totalSales = 2, totalRevenue = Num 50, totalFees = Num 0, averageOrderValue = Num 25\<rparr>
       \<lparr>previous_totalRevenue = Num 0, previous_totalSales = 0\<rparr> = Num 100"
    by simp_all
  from growth_rounded
      [of "\<lparr>previous_totalRevenue = Num 0, previous_totalSales = 0\<rparr>"
          "\<lparr>totalSales = 0, totalRevenue = Num 0, totalFees = Num 0,
            averageOrderValue = Num 0\<rparr>"] g
  have c: "revenueGrowth
       \<lparr>totalSales = 0, totalRevenue = Num 0, totalFees = Num 0, averageOrderValue = Num 0\<rparr>
       \<lparr>previous_totalRevenue = Num 0, previous_totalSales = 0\<rparr> = Num 0"
    by simp
  from growth_rounded
      [of "\<lparr>previous_totalRevenue = Num 3, previous_totalSales = 3\<rparr>"
          "\<lparr>totalSales = 4, totalRevenue = Num 4, totalFees = Num 0,
            averageOrderValue = Num 1\<rparr>",
       unfolded sales_metrics.select_convs previous_metrics.select_convs]
  have "\<forall>x. gt0 (Num 3) \<and> percent_of (fsub (Num 4) (Num 3)) (Num 3) = Num x \<and> \<bar>x\<bar> < 10 ^ 21 \<longrightarrow>
        (\<exists>k::int. \<bar>real_of_int k / 100 - x\<bar> \<le> 1 / 200
           \<and> revenueGrowth
              \<lparr>totalSales = 4, totalRevenue = Num 4, totalFees = Num 0, averageOrderValue = Num 1\<rparr>
              \<lparr>previous_totalRevenue = Num 3, previous_totalSales = 3\<rparr>
             = rnd (real_of_int k / 100))"
    by blast
  with g(1) q small
  have d: "\<exists>k::int. \<bar>real_of_int k / 100 - 2345624805922133 / 2 ^ 46\<bar> \<le> 1 / 200
         \<and> revenueGrowth
              \<lparr>totalSales = 4, totalRevenue = Num 4, totalFees = Num 0, averageOrderValue = Num 1\<rparr>
              \<lparr>previous_totalRevenue = Num 3, previous_totalSales = 3\<rparr>
             = rnd (real_of_int k / 100)"
    by blast
  from a b c d g(1) q show ?thesis by blast
qed

lemma shirt_week_sales:
  "metrics_sales (dashboard tz seller (Some Week) (Some GBP) noon_15_May_2024
      \<lparr>products = [], sales = [shirt_sale], expenses = [stamps]\<rparr>) =
     \<lparr>totalSales = 1, totalRevenue = Num 45, totalFees = Num 0, averageOrderValue = Num 45\<rparr>"
  unfolding dashboard_metrics_sales
  by (simp add: salesMetrics_def group_all_def first_or_def startDate_def seller_def
      noon_15_May_2024_def shirt_sale_def no_fees_def fees_add_def number_eval)

lemma shirt_week_expenses:
  "metrics_expenses (dashboard tz seller (Some Week) (Some GBP) noon_15_May_2024
      \<lparr>products = [], sales = [shirt_sale], expenses = [stamps]\<rparr>) =
     \<lparr>totalExpenses = Num 30, expenseCount = 1\<rparr>"
  unfolding dashboard_metrics_expenses
  by (simp add: expenseMetrics_def group_all_def first_or_def startDate_def seller_def
      noon_15_May_2024_def stamps_def number_eval)

text \<open>
  Claim C7, as stated: with a positive net revenue the profit margin is net profit over net
  revenue times 100, and it is never infinite. It fails: the code rounds the figure with
  \<open>toFixed(2)\<close>. A sale of 45 with expenses of 30 gives a net profit of 15 and a margin that is
  the double nearest to 33.33, which is neither the quotient times 100 as the doubles give it
  nor the exact 100/3. And a quotient that overflows gives an infinite margin.
\<close>

theorem margin_not_exact:
  "sales_netRevenue (dashboard utc seller (Some Week) (Some GBP) noon_15_May_2024
      \<lparr>products = [], sales = [shirt_sale], expenses = [stamps]\<rparr>) = Num 45
   \<and> profit_netProfit (dashboard utc seller (Some Week) (Some GBP) noon_15_May_2024
      \<lparr>products = [], sales = [shirt_sale], expenses = [stamps]\<rparr>) = Num 15
   \<and> profit_profitMargin (dashboard utc seller (Some Week) (Some GBP) noon_15_May_2024
      \<lparr>products = [], sales = [shirt_sale], expenses = [stamps]\<rparr>) = rnd (3333 / 100)
   \<and> percent_of (Num 15) (Num 45) \<noteq> rnd (3333 / 100)
   \<and> Num (15 / 45 * 100) \<noteq> rnd (3333 / 100)
   \<and> profitMargin
        \<lparr>totalSales = 1, totalRevenue = Num (1 / 2 ^ 60), totalFees = Num 0,
          averageOrderValue = Num (1 / 2 ^ 60)\<rparr>
        \<lparr>totalExpenses = Num (2 ^ 965), expenseCount = 1\<rparr> = NegInfinity"
  unfolding dashboard_profit shirt_week_sales shirt_week_expenses
  by (simp add: netProfit_def netRevenue_def profitMargin_def number_eval)

text \<open>
  The figure that is rounded is the double, not the exact quotient: at a revenue of 160 and
  expenses of 63 the exact margin 60.625 would round to 60.63, and the code returns 60.62.
\<close>

lemma margin_rounds_the_double:
  "profitMargin
      \<lparr>totalSales = 1, totalRevenue = Num 160, totalFees = Num 0, averageOrderValue = Num 160\<rparr>
      \<lparr>totalExpenses = Num 63, expenseCount = 1\<rparr> = rnd (6062 / 100)"
  "\<lfloor>(97 / 160 * 100 :: real) * 100 + 1 / 2\<rfloor> = 6063"
  by (simp_all add: netProfit_def netRevenue_def profitMargin_def number_eval)

lemma percent_of_not_NaN:
  assumes "is_finite a"
  shows "gt0 b \<Longrightarrow> percent_of a b \<noteq> NaN"
proof -
  assume b: "gt0 b"
  from assms obtain x where a: "a = Num x" by (cases a) (simp_all add: is_finite_def)
  from b consider (fin) y where "b = Num y" "0 < y" | (inf) "b = PosInfinity"
    by (cases b) (simp_all add: gt0_def)
  then show ?thesis
  proof cases
    case fin
    then have "fdiv a b = rnd (x / y)" using a by simp
    then show ?thesis
      using rnd_not_NaN [of "x / y"] rnd_not_NaN
      by (cases "rnd (x / y)") (simp_all add: percent_of_def infinity_def)
  next
    case inf
    then show ?thesis using a rnd_not_NaN [of 0] by (simp add: percent_of_def)
  qed
qed

text \<open>
  Claim C7, amended. In every dashboard result the net profit is the net revenue less the
  total expenses, in double arithmetic. The profit margin is exactly 0 when the net revenue is
  not greater than 0, so that no division by a zero or negative net revenue is made; when the
  net revenue is greater than 0 it is net profit over net revenue times 100, computed in
  doubles, rounded to two decimals by \<open>toFixed(2)\<close> and read back: for a figure below
  \<open>10\<^sup>2\<^sup>1\<close> in magnitude, the double nearest to a whole number of hundredths within 0.005 of
  it. It is never \<open>NaN\<close> when the net profit is finite.
\<close>

theorem profit_margin_rounded:
  "profit_netProfit (dashboard tz u qp qc now d) =
      fsub (sales_netRevenue (dashboard tz u qp qc now d))
        (totalExpenses (metrics_expenses (dashboard tz u qp qc now d)))
   \<and> (\<not> gt0 (sales_netRevenue (dashboard tz u qp qc now d)) \<longrightarrow>
        profit_profitMargin (dashboard tz u qp qc now d) = Num 0)
   \<and> (gt0 (sales_netRevenue (dashboard tz u qp qc now d)) \<longrightarrow>
        profit_profitMargin (dashboard tz u qp qc now d) =
          toFixed2 (percent_of (profit_netProfit (dashboard tz u qp qc now d))
                      (sales_netRevenue (dashboard tz u qp qc now d))))
   \<and> (\<forall>x. gt0 (sales_netRevenue (dashboard tz u qp qc now d))
          \<and> percent_of (profit_netProfit (dashboard tz u qp qc now d))
                (sales_netRevenue (dashboard tz u qp qc now d)) = Num x
          \<and> \<bar>x\<bar> < 10 ^ 21 \<longrightarrow>
        (\<exists>k::int. \<bar>real_of_int k / 100 - x\<bar> \<le> 1 / 200
           \<and> profit_profitMargin (dashboard tz u qp qc now d) = rnd (real_of_int k / 100)))
   \<and> (is_finite (profit_netProfit (dashboard tz u qp qc now d)) \<longrightarrow>
        profit_profitMargin (dashboard tz u qp qc now d) \<noteq> NaN)"
  unfolding dashboard_profit
  using toFixed2_two_decimals percent_of_not_NaN toFixed2_not_NaN
  by (simp add: netProfit_def profitMargin_def percent_of_def [symmetric])

lemma empty_week_netRevenue:
  "sales_netRevenue (dashboard tz seller (Some Week) (Some GBP) noon_15_May_2024 empty_db) = Num 0"
  unfolding dashboard_profit dashboard_metrics_sales
  by (simp add: salesMetrics_def group_all_def first_or_def empty_db_def netRevenue_def
      number_eval)

theorem profit_margin_rounded_witness:
  "gt0 (sales_netRevenue (dashboard utc seller (Some Week) (Some GBP) noon_15_May_2024
          \<lparr>products = [], sales = [shirt_sale], expenses = [stamps]\<rparr>))
   \<and> percent_of (Num 15) (Num 45) = Num (2345624805922133 / 2 ^ 46)
   \<and> (\<exists>k::int. \<bar>real_of_int k / 100 - 2345624805922133 / 2 ^ 46\<bar> \<le> 1 / 200
         \<and> profit_profitMargin (dashboard utc seller (Some Week) (Some GBP) noon_15_May_2024
              \<lparr>products = [], sales = [shirt_sale], expenses = [stamps]\<rparr>)
             = rnd (real_of_int k / 100))
   \<and> profit_profitMargin (dashboard utc seller (Some Week) (Some GBP) noon_15_May_2024
          \<lparr>products = [], sales = [shirt_sale], expenses = [stamps]\<rparr>) \<noteq> NaN
   \<and> \<not> gt0 (sales_netRevenue (dashboard utc seller (Some Week) (Some GBP) noon_15_May_2024
          empty_db))
   \<and> profit_profitMargin (dashboard utc seller (Some Week) (Some GBP) noon_15_May_2024 empty_db)
       = Num 0"
proof -
  let ?P = "dashboard utc seller (Some Week) (Some GBP) noon_15_May_2024
              \<lparr>products = [], sales = [shirt_sale], expenses = [stamps]\<rparr>"
  let ?E = "dashboard utc seller (Some Week) (Some GBP) noon_15_May_2024 empty_db"
  have nr: "sales_netRevenue ?P = Num 45" and np: "profit_netProfit ?P = Num 15"
    unfolding dashboard_profit shirt_week_sales shirt_week_expenses
    by (simp_all add: netProfit_def netRevenue_def number_eval)
  have pos: "gt0 (sales_netRevenue ?P)" unfolding nr by (simp add: gt0_def)
  have fin: "is_finite (profit_netProfit ?P)" unfolding np by (simp add: is_finite_def)
  have q: "percent_of (Num 15) (Num 45) = Num (2345624805922133 / 2 ^ 46)"
    by (simp add: number_eval)
  then have q': "percent_of (profit_netProfit ?P) (sales_netRevenue ?P)
                  = Num (2345624805922133 / 2 ^ 46)"
    unfolding nr np .
  have small: "\<bar>2345624805922133 / 2 ^ 46 :: real\<bar> < 10 ^ 21" by simp
  have zero: "\<not> gt0 (sales_netRevenue ?E)"
    unfolding empty_week_netRevenue by (simp add: gt0_def)
  note t = profit_margin_rounded [of utc seller "Some Week" "Some GBP" noon_15_May_2024
      "\<lparr>products = [], sales = [shirt_sale], expenses = [stamps]\<rparr>"]
  from t pos q' small
  have a: "\<exists>k::int. \<bar>real_of_int k / 100 - 2345624805922133 / 2 ^ 46\<bar> \<le> 1 / 200
         \<and> profit_profitMargin ?P = rnd (real_of_int k / 100)"
    by blast
  from t fin have b: "profit_profitMargin ?P \<noteq> NaN" by blast
  from zero
    profit_margin_rounded [of utc seller "Some Week" "Some GBP" noon_15_May_2024 empty_db]
  have c: "profit_profitMargin ?E = Num 0" by blast
  from pos q a b zero c show ?thesis by blast
qed

text \<open>
  Claim C10. For every user, period and currency, when no sale and no expense matches the
  filters of the aggregation, the dashboard is still computed and its summary is all zero:
  \<open>totalSales\<close>, \<open>totalRevenue\<close>, \<open>totalFees\<close>, \<open>averageOrderValue\<close>, \<open>totalExpenses\<close> and
  \<open>expenseCount\<close> are 0, and so are the net revenue, the net profit and the profit margin;
  none of them is \<open>NaN\<close>.
\<close>

theorem empty_period_all_zero:
  assumes "\<forall>s \<in> set (sales d). \<not> (sale_user s = user_id u \<and> \<not> sale_isArchived s
              \<and> startDate tz (case qp of None \<Rightarrow> Month | Some p \<Rightarrow> p) now \<le> saleDate s
              \<and> sale_currency s = (case qc of None \<Rightarrow> user_currency u | Some c \<Rightarrow> c))"
    and "\<forall>e \<in> set (expenses d). \<not> (expense_user e = user_id u \<and> \<not> expense_isArchived e
              \<and> startDate tz (case qp of None \<Rightarrow> Month | Some p \<Rightarrow> p) now \<le> expense_date e
              \<and> expense_currency e = (case qc of None \<Rightarrow> user_currency u | Some c \<Rightarrow> c))"
  shows "metrics_sales (dashboard tz u qp qc now d) =
           \<lparr>totalSales = 0, totalRevenue = Num 0, totalFees = Num 0, averageOrderValue = Num 0\<rparr>
       \<and> metrics_expenses (dashboard tz u qp qc now d) =
           \<lparr>totalExpenses = Num 0, expenseCount = 0\<rparr>
       \<and> sales_netRevenue (dashboard tz u qp qc now d) = Num 0
       \<and> profit_netProfit (dashboard tz u qp qc now d) = Num 0
       \<and> profit_profitMargin (dashboard tz u qp qc now d) = Num 0"
proof -
  have s: "filter (\<lambda>s. sale_user s = user_id u \<and> sale_isArchived s = False
              \<and> startDate tz (case qp of None \<Rightarrow> Month | Some p \<Rightarrow> p) now \<le> saleDate s
              \<and> sale_currency s = (case qc of None \<Rightarrow> user_currency u | Some c \<Rightarrow> c)) (sales d) = []"
    using assms(1) by (simp add: filter_empty_conv)
  have e: "filter (\<lambda>e. expense_user e = user_id u \<and> expense_isArchived e = False
              \<and> startDate tz (case qp of None \<Rightarrow> Month | Some p \<Rightarrow> p) now \<le> expense_date e
              \<and> expense_currency e = (case qc of None \<Rightarrow> user_currency u | Some c \<Rightarrow> c)) (expenses d) = []"
    using assms(2) by (simp add: filter_empty_conv)
  show ?thesis
    unfolding dashboard_profit dashboard_metrics_sales dashboard_metrics_expenses
      salesMetrics_def expenseMetrics_def s e
    by (simp add: group_all_def first_or_def netRevenue_def netProfit_def profitMargin_def
        fsub_def fneg_def rnd_def gt0_def)
qed

theorem empty_period_all_zero_witness:
  "sale_currency usd_sale \<noteq> GBP \<and> expense_currency usd_stamps \<noteq> GBP
   \<and> metrics_sales (dashboard utc seller (Some Week) (Some GBP) noon_15_May_2024
        \<lparr>products = [], sales = [usd_sale], expenses = [usd_stamps]\<rparr>) =
        \<lparr>totalSales = 0, totalRevenue = Num 0, totalFees = Num 0, averageOrderValue = Num 0\<rparr>
   \<and> metrics_expenses (dashboard utc seller (Some Week) (Some GBP) noon_15_May_2024
        \<lparr>products = [], sales = [usd_sale], expenses = [usd_stamps]\<rparr>) =
        \<lparr>totalExpenses = Num 0, expenseCount = 0\<rparr>
   \<and> profit_profitMargin (dashboard utc seller (Some Week) (Some GBP) noon_15_May_2024
        \<lparr>products = [], sales = [usd_sale], expenses = [usd_stamps]\<rparr>) = Num 0"
  using empty_period_all_zero [where tz = utc and u = seller and qp = "Some Week"
      and qc = "Some GBP" and now = noon_15_May_2024
      and d = "\<lparr>products = [], sales = [usd_sale], expenses = [usd_stamps]\<rparr>"]
  by (simp add: usd_sale_def usd_stamps_def stamps_def)

text \<open>
  The defaults and the guard are what makes it so: on the empty summary the margin formula
  without its guard, and an average over no sale, are \<open>NaN\<close>.
\<close>

lemma unguarded_figures_are_NaN:
  "toFixed2 (percent_of (fsub (fsub (Num 0) (Num 0)) (Num 0)) (fsub (Num 0) (Num 0))) = NaN"
  "navg [] = NaN"
  by (simp_all add: number_eval)

text \<open>
  Claim C4. Every monetary total of the dashboard, the breakdowns included, should sum only
  records in the currency of the filter, so that a sale or expense in another currency leaves
  every reported amount unchanged. The headline metrics filter by currency; the platform,
  top-product, expense and daily-trend breakdowns do not. With the filter GBP, adding a USD sale
  of 30 and a USD expense of 10 to a GBP sale of 45 and a GBP expense of 30 changes the platform
  revenue, the top product's revenue and the day's revenue from 45 to 75 and the expense
  category's amount from 30 to 40.
\<close>

theorem breakdowns_mix_currencies:
  "map row_revenue (charts_platformPerformance (dashboard tz seller (Some Week) (Some GBP)
      noon_15_May_2024 \<lparr>products = [shirt], sales = [shirt_sale], expenses = [stamps]\<rparr>))
     = [Num 45]
   \<and> map row_revenue (charts_platformPerformance (dashboard tz seller (Some Week) (Some GBP)
      noon_15_May_2024 \<lparr>products = [shirt], sales = [shirt_sale, usd_sale],
                        expenses = [stamps, usd_stamps]\<rparr>)) = [Num 75]
   \<and> map top_totalRevenue (insights_topProducts (dashboard tz seller (Some Week) (Some GBP)
      noon_15_May_2024 \<lparr>products = [shirt], sales = [shirt_sale], expenses = [stamps]\<rparr>))
     = [Num 45]
   \<and> map top_totalRevenue (insights_topProducts (dashboard tz seller (Some Week) (Some GBP)
      noon_15_May_2024 \<lparr>products = [shirt], sales = [shirt_sale, usd_sale],
                        expenses = [stamps, usd_stamps]\<rparr>)) = [Num 75]
   \<and> map row_amount (charts_expenseBreakdown (dashboard tz seller (Some Week) (Some GBP)
      noon_15_May_2024 \<lparr>products = [shirt], sales = [shirt_sale], expenses = [stamps]\<rparr>))
     = [Num 30]
   \<and> map row_amount (charts_expenseBreakdown (dashboard tz seller (Some Week) (Some GBP)
      noon_15_May_2024 \<lparr>products = [shirt], sales = [shirt_sale, usd_sale],
                        expenses = [stamps, usd_stamps]\<rparr>)) = [Num 40]
   \<and> map trend_revenue (charts_salesTrend (dashboard tz seller (Some Week) (Some GBP)
      noon_15_May_2024 \<lparr>products = [shirt], sales = [shirt_sale], expenses = [stamps]\<rparr>))
     = [Num 45]
   \<and> map trend_revenue (charts_salesTrend (dashboard tz seller (Some Week) (Some GBP)
      noon_15_May_2024 \<lparr>products = [shirt], sales = [shirt_sale, usd_sale],
                        expenses = [stamps, usd_stamps]\<rparr>)) = [Num 75]"
  unfolding dashboard_charts
  by (simp add: platformPerformance_def topProducts_def expenseBreakdown_def salesTrend_def
      group_by_def startDate_def seller_def noon_15_May_2024_def shirt_sale_def usd_sale_def
      stamps_def usd_stamps_def number_eval)

section \<open>Properties of the alerts\<close>

lemma count_warehouse:
  "length (filter (\<lambda>p. product_user p = user_id seller \<and> \<not> product_isArchived p)
             (products warehouse)) = 80"
  by (simp add: warehouse_def seller_def shirt_def filter_map comp_def)

text \<open>
  Claim C9. For every user on the free tier with at least 80 non-archived products of their
  own, the alerts contain exactly one \<open>subscription_limit\<close> alert; its severity is \<open>info\<close>, it
  requires no action, and its data give the number of the user's non-archived products as the
  current count and 100 as the limit. A user on the pro tier gets no such alert.
\<close>

theorem subscription_limit_alert:
  "(subscription_type u = Free
      \<and> 80 \<le> length (filter (\<lambda>p. product_user p = user_id u \<and> \<not> product_isArchived p)
                         (products d)) \<longrightarrow>
      alerts_of_type Subscription_limit (alerts u d) =
        [\<lparr>alert_type = Subscription_limit, severity = Info,
          title = ''Approaching Product Limit'',
          message = ''You have ''
            @ decimal (length (filter (\<lambda>p. product_user p = user_id u \<and> \<not> product_isArchived p)
                                 (products d)))
            @ ''/100 products. Upgrade to Pro for unlimited inventory.'',
          data = Limit_data
                   (int (length (filter (\<lambda>p. product_user p = user_id u \<and> \<not> product_isArchived p)
                                   (products d)))) 100,
          actionRequired = False\<rparr>])
   \<and> (subscription_type u = Pro \<longrightarrow> alerts_of_type Subscription_limit (alerts u d) = [])"
  by (simp add: alerts_def alerts_of_type_def productCount_def Let_def)

theorem subscription_limit_alert_witness:
  "subscription_type seller = Free
   \<and> 80 \<le> length (filter (\<lambda>p. product_user p = user_id seller \<and> \<not> product_isArchived p)
                      (products warehouse))
   \<and> map data (alerts_of_type Subscription_limit (alerts seller warehouse)) = [Limit_data 80 100]
   \<and> alerts_of_type Subscription_limit (alerts (seller\<lparr>subscription_type := Pro\<rparr>) warehouse) = []"
  using subscription_limit_alert [of seller warehouse]
    subscription_limit_alert [of "seller\<lparr>subscription_type := Pro\<rparr>" warehouse]
  by (simp add: count_warehouse) (simp add: seller_def)

section \<open>Properties of the calendar\<close>

text \<open>
  The year computed by \<open>YearFromDay\<close> is the one the standard asks for: the largest year that
  starts on or before the given day. The first day of a month, built by \<open>MakeDay\<close>, reads back
  as that year, that month and day 1.
\<close>

lemma div_bounds:
  fixes a c :: int
  assumes "0 < c"
  shows "c * (a div c) \<le> a" and "a < c * (a div c) + c"
proof -
  have "c * (a div c) + a mod c = a" by (rule mult_div_mod_eq)
  moreover have "0 \<le> a mod c" "a mod c < c" using assms by simp_all
  ultimately show "c * (a div c) \<le> a" and "a < c * (a div c) + c" by linarith+
qed

lemma DayFromYear_bounds:
  "146097 * y - 287811596 \<le> 400 * DayFromYear y"
  "400 * DayFromYear y \<le> 146097 * y - 287810501"
proof -
  define a where "a = (y - 1969) div 4"
  define b where "b = (y - 1901) div 100"
  define c where "c = (y - 1601) div 400"
  have a: "4 * a \<le> y - 1969" "y - 1969 < 4 * a + 4"
    unfolding a_def by (rule div_bounds, simp)+
  have b: "100 * b \<le> y - 1901" "y - 1901 < 100 * b + 100"
    unfolding b_def by (rule div_bounds, simp)+
  have c: "400 * c \<le> y - 1601" "y - 1601 < 400 * c + 400"
    unfolding c_def by (rule div_bounds, simp)+
  have D: "DayFromYear y = 365 * (y - 1970) + a - b + c"
    by (simp add: DayFromYear_def a_def b_def c_def)
  show "146097 * y - 287811596 \<le> 400 * DayFromYear y"
    unfolding D using a b c by (simp add: algebra_simps)
  show "400 * DayFromYear y \<le> 146097 * y - 287810501"
    unfolding D using a b c by (simp add: algebra_simps)
qed

lemma YearFromDay_lower: "DayFromYear (YearFromDay d) \<le> d"
proof -
  define e where "e = 1970 + (400 * d) div 146097"
  define q where "q = (400 * d) div 146097"
  have q: "146097 * q \<le> 400 * d" "400 * d < 146097 * q + 146097"
    unfolding q_def by (rule div_bounds, simp)+
  have e: "e = 1970 + q" by (simp add: e_def q_def)
  have "400 * DayFromYear (e - 1) \<le> 400 * d"
    using DayFromYear_bounds(2) [of "e - 1"] q e by (simp add: algebra_simps)
  then have "DayFromYear (e - 1) \<le> d" by simp
  then show ?thesis
    unfolding YearFromDay_def Let_def e_def [symmetric] by simp
qed

lemma YearFromDay_upper: "d < DayFromYear (YearFromDay d + 1)"
proof -
  define e where "e = 1970 + (400 * d) div 146097"
  define q where "q = (400 * d) div 146097"
  have q: "146097 * q \<le> 400 * d" "400 * d < 146097 * q + 146097"
    unfolding q_def by (rule div_bounds, simp)+
  have e: "e = 1970 + q" by (simp add: e_def q_def)
  have "400 * d < 400 * DayFromYear (e + 2)"
    using DayFromYear_bounds(1) [of "e + 2"] q e by (simp add: algebra_simps)
  then have "d < DayFromYear (e + 2)" by simp
  then show ?thesis
    unfolding YearFromDay_def Let_def e_def [symmetric]
    by (auto simp: add.commute) 
qed


lemma div_succ:
  fixes a c :: int
  assumes "0 < c"
  shows "(a + 1) div c = a div c + (if (a + 1) mod c = 0 then 1 else 0)"
proof -
  have eq: "c * (a div c) + a mod c = a" by (rule mult_div_mod_eq)
  have r: "0 \<le> a mod c" "a mod c < c" using assms by simp_all
  show ?thesis
  proof (cases "a mod c + 1 < c")
    case True
    have "a + 1 = c * (a div c) + (a mod c + 1)" using eq by linarith
    then have "(a + 1) div c = a div c" "(a + 1) mod c = a mod c + 1"
      using True r int_div_pos_eq [of "a + 1" c "a div c" "a mod c + 1"]
        int_mod_pos_eq [of "a + 1" c "a div c" "a mod c + 1"] by simp_all
    then show ?thesis using r by simp
  next
    case False
    then have "a mod c + 1 = c" using r by linarith
    moreover have "c * (a div c + 1) = c * (a div c) + c" by (simp add: distrib_left)
    ultimately have "a + 1 = c * (a div c + 1) + 0" using eq by linarith
    then have "(a + 1) div c = a div c + 1" "(a + 1) mod c = 0"
      using assms int_div_pos_eq [of "a + 1" c "a div c + 1" 0]
        int_mod_pos_eq [of "a + 1" c "a div c + 1" 0] by simp_all
    then show ?thesis by simp
  qed
qed

lemma mod_shift: "(y - c * k) mod c = y mod c" for y c k :: int
proof -
  have "(y - c * k) mod c = (y + c * (- k)) mod c" by simp
  also have "\<dots> = y mod c" by (rule mod_mult_self2)
  finally show ?thesis .
qed

lemma step4: "(y - 1968) div 4 = (y - 1969) div 4 + (if y mod 4 = 0 then 1 else 0)" for y :: int
  using div_succ [of 4 "y - 1969"] mod_shift [of y 4 492] by simp

lemma step100: "(y - 1900) div 100 = (y - 1901) div 100 + (if y mod 100 = 0 then 1 else 0)" for y :: int
  using div_succ [of 100 "y - 1901"] mod_shift [of y 100 19] by simp

lemma step400: "(y - 1600) div 400 = (y - 1601) div 400 + (if y mod 400 = 0 then 1 else 0)" for y :: int
  using div_succ [of 400 "y - 1601"] mod_shift [of y 400 4] by simp

lemma mod_100_4: "y mod 100 = 0 \<Longrightarrow> y mod 4 = 0" for y :: int
  using mod_mod_cancel [of 4 100 y] by simp

lemma mod_400_100: "y mod 400 = 0 \<Longrightarrow> y mod 100 = 0" for y :: int
  using mod_mod_cancel [of 100 400 y] by simp

lemma leap_count:
  "(if y mod 4 = 0 then 1 else 0) - (if y mod 100 = 0 then 1 else 0)
     + (if y mod 400 = 0 then 1 else 0) = DaysInYear y - (365::int)"
proof (cases "y mod 400 = 0")
  case True
  then have "y mod 100 = 0" by (rule mod_400_100)
  moreover from this have "y mod 4 = 0" by (rule mod_100_4)
  ultimately show ?thesis using True by (simp add: DaysInYear_def)
next
  case n400: False
  show ?thesis
  proof (cases "y mod 100 = 0")
    case True
    then have "y mod 4 = 0" by (rule mod_100_4)
    with True n400 show ?thesis by (simp add: DaysInYear_def)
  next
    case False
    with n400 show ?thesis by (simp add: DaysInYear_def)
  qed
qed

lemma DayFromYear_Suc: "DayFromYear (y + 1) = DayFromYear y + DaysInYear y"
proof -
  have "DayFromYear (y + 1) =
      365 * (y - 1969) + (y - 1968) div 4 - (y - 1900) div 100 + (y - 1600) div 400"
    by (simp add: DayFromYear_def)
  also have "\<dots> = DayFromYear y + 365
      + ((if y mod 4 = 0 then 1 else 0) - (if y mod 100 = 0 then 1 else 0)
          + (if y mod 400 = 0 then 1 else 0))"
    unfolding step4 step100 step400 DayFromYear_def by (simp add: algebra_simps)
  finally show ?thesis unfolding leap_count by simp
qed

lemma DaysInYear_bounds: "365 \<le> DaysInYear y" "DaysInYear y \<le> 366"
  by (simp_all add: DaysInYear_def)

lemma DayFromYear_mono: "y \<le> z \<Longrightarrow> DayFromYear y \<le> DayFromYear z"
proof (induction z rule: int_ge_induct)
  case base
  show ?case by simp
next
  case (step i)
  then show ?case using DayFromYear_Suc [of i] DaysInYear_bounds [of i] by linarith
qed

lemma YearFromDay_unique:
  assumes "DayFromYear y \<le> d" and "d < DayFromYear (y + 1)"
  shows "YearFromDay d = y"
proof (rule ccontr)
  assume ne: "YearFromDay d \<noteq> y"
  show False
  proof (cases "YearFromDay d < y")
    case True
    then have "DayFromYear (YearFromDay d + 1) \<le> DayFromYear y"
      by (intro DayFromYear_mono) simp
    with YearFromDay_upper [of d] assms show False by linarith
  next
    case False
    with ne have "DayFromYear (y + 1) \<le> DayFromYear (YearFromDay d)"
      by (intro DayFromYear_mono) simp
    with YearFromDay_lower [of d] assms show False by linarith
  qed
qed


lemma month_cases:
  fixes m :: int
  assumes "0 \<le> m" "m \<le> 11"
  shows "m = 0 \<or> m = 1 \<or> m = 2 \<or> m = 3 \<or> m = 4 \<or> m = 5 \<or> m = 6 \<or> m = 7 \<or> m = 8
         \<or> m = 9 \<or> m = 10 \<or> m = 11"
  using assms by presburger

lemma DayFromMonth_bounds:
  assumes "0 \<le> m" "m \<le> 11" "L = 0 \<or> L = 1"
  shows "0 \<le> DayFromMonth m L" "DayFromMonth m L < 365"
  using assms month_cases [of m] by (auto simp: DayFromMonth_def)

lemma Day_first_of_month:
  "Day (MakeDate (MakeDay y m 1) 0) = MakeDay y m 1"
  by (simp add: Day_def MakeDate_def msPerDay_def)

lemma first_of_month:
  assumes m: "0 \<le> m" "m \<le> 11"
  shows "YearFromTime (MakeDate (MakeDay y m 1) 0) = y"
    and "MonthFromTime (MakeDate (MakeDay y m 1) 0) = m"
    and "DateFromTime (MakeDate (MakeDay y m 1) 0) = 1"
proof -
  define t where "t = MakeDate (MakeDay y m 1) 0"
  define L :: int where "L = (if DaysInYear y = 366 then 1 else 0)"
  have L: "L = 0 \<or> L = 1" by (simp add: L_def)
  have mm: "m div 12 = 0" "m mod 12 = m" using m by simp_all
  have day: "Day t = DayFromYear y + DayFromMonth m L"
    unfolding t_def Day_first_of_month by (simp add: MakeDay_def mm L_def)
  have b: "0 \<le> DayFromMonth m L" "DayFromMonth m L < 365"
    using DayFromMonth_bounds [OF m L] by simp_all
  have "DayFromYear y \<le> Day t" using day b by linarith
  moreover have "Day t < DayFromYear (y + 1)"
    using day b DayFromYear_Suc [of y] DaysInYear_bounds [of y] by linarith
  ultimately have y: "YearFromTime t = y"
    unfolding YearFromTime_def by (rule YearFromDay_unique)
  have leap: "InLeapYear t = L" by (simp add: InLeapYear_def y L_def)
  have dwy: "DayWithinYear t = DayFromMonth m L" by (simp add: DayWithinYear_def y day)
  have mon: "MonthFromTime t = m"
    unfolding MonthFromTime_def Let_def dwy leap
    using month_cases [OF m] L by (auto simp: DayFromMonth_def)
  have dat: "DateFromTime t = 1"
    by (simp add: DateFromTime_def mon dwy leap)
  show "YearFromTime (MakeDate (MakeDay y m 1) 0) = y"
    and "MonthFromTime (MakeDate (MakeDay y m 1) 0) = m"
    and "DateFromTime (MakeDate (MakeDay y m 1) 0) = 1"
    using y mon dat by (simp_all add: t_def)
qed


lemma MonthFromTime_range: "0 \<le> MonthFromTime t" "MonthFromTime t \<le> 11"
  by (simp_all add: MonthFromTime_def Let_def)

lemma InLeapYear_cases: "InLeapYear t = 0 \<or> InLeapYear t = 1"
  by (simp add: InLeapYear_def)

lemma quarter_month:
  fixes m :: int
  assumes "0 \<le> m" "m \<le> 11"
  shows "0 \<le> m div 3 * 3" "m div 3 * 3 \<le> 11" "m div 3 * 3 \<le> m" "m < m div 3 * 3 + 3"
proof -
  define k where "k = m div 3"
  have k: "3 * k \<le> m" "m < 3 * k + 3"
    unfolding k_def by (rule div_bounds, simp)+
  have "0 \<le> m div 3" using assms by (simp add: pos_imp_zdiv_nonneg_iff)
  then show "0 \<le> m div 3 * 3" by simp
  show "m div 3 * 3 \<le> 11" unfolding k_def [symmetric] using k assms by linarith
  show "m div 3 * 3 \<le> m" unfolding k_def [symmetric] using k assms by linarith
  show "m < m div 3 * 3 + 3" unfolding k_def [symmetric] using k assms by linarith
qed

lemma quarter_local_midnight:
  assumes "getFullYear tz now < 0 \<or> 99 < getFullYear tz now"
  shows "startDate tz Quarter now =
           UTC tz (MakeDate (MakeDay (getFullYear tz now) (getMonth tz now div 3 * 3) 1) 0)"
    and "YearFromTime (MakeDate (MakeDay (getFullYear tz now) (getMonth tz now div 3 * 3) 1) 0)
           = getFullYear tz now"
    and "MonthFromTime (MakeDate (MakeDay (getFullYear tz now) (getMonth tz now div 3 * 3) 1) 0)
           = getMonth tz now div 3 * 3"
    and "DateFromTime (MakeDate (MakeDay (getFullYear tz now) (getMonth tz now div 3 * 3) 1) 0)
           = 1"
    and "MakeDate (MakeDay (getFullYear tz now) (getMonth tz now div 3 * 3) 1) 0 mod msPerDay = 0"
proof -
  have m: "0 \<le> getMonth tz now" "getMonth tz now \<le> 11"
    unfolding getMonth_def by (rule MonthFromTime_range)+
  have q: "0 \<le> getMonth tz now div 3 * 3" "getMonth tz now div 3 * 3 \<le> 11"
    using quarter_month [OF m] by simp_all
  have "(if 0 \<le> getFullYear tz now \<and> getFullYear tz now \<le> 99 then 1900 + getFullYear tz now
         else getFullYear tz now) = getFullYear tz now"
    using assms by auto
  then show "startDate tz Quarter now =
           UTC tz (MakeDate (MakeDay (getFullYear tz now) (getMonth tz now div 3 * 3) 1) 0)"
    by (simp add: startDate_def Date_ymd_def Let_def)
  show "YearFromTime (MakeDate (MakeDay (getFullYear tz now) (getMonth tz now div 3 * 3) 1) 0)
           = getFullYear tz now"
    by (rule first_of_month(1) [OF q])
  show "MonthFromTime (MakeDate (MakeDay (getFullYear tz now) (getMonth tz now div 3 * 3) 1) 0)
           = getMonth tz now div 3 * 3"
    by (rule first_of_month(2) [OF q])
  show "DateFromTime (MakeDate (MakeDay (getFullYear tz now) (getMonth tz now div 3 * 3) 1) 0)
           = 1"
    by (rule first_of_month(3) [OF q])
  show "MakeDate (MakeDay (getFullYear tz now) (getMonth tz now div 3 * 3) 1) 0 mod msPerDay = 0"
    by (simp add: MakeDate_def)
qed

lemma LocalTime_UTC:
  "offset_at tz (UTC tz t) = offset_of_local tz t \<Longrightarrow> LocalTime tz (UTC tz t) = t"
  by (simp add: LocalTime_def UTC_def)

section \<open>Properties of the period\<close>

lemma nsum_Nil: "nsum [] = Num 0"
  by (simp add: nsum_def)

lemma previous_window:
  "previous_totalSales
      (first_or (previousSalesMetrics uid (previousPeriodStart s e) s cur ss)
         \<lparr>previous_totalRevenue = Num 0, previous_totalSales = 0\<rparr>) =
     int (length (filter (\<lambda>x. sale_user x = uid \<and> \<not> sale_isArchived x \<and> sale_currency x = cur
                              \<and> s - (e - s) \<le> saleDate x \<and> saleDate x < s) ss))"
  "previous_totalRevenue
      (first_or (previousSalesMetrics uid (previousPeriodStart s e) s cur ss)
         \<lparr>previous_totalRevenue = Num 0, previous_totalSales = 0\<rparr>) =
     nsum (map (\<lambda>x. double_of (salePrice x))
       (filter (\<lambda>x. sale_user x = uid \<and> \<not> sale_isArchived x \<and> sale_currency x = cur
                              \<and> s - (e - s) \<le> saleDate x \<and> saleDate x < s) ss))"
proof -
  have eq: "(\<lambda>x. sale_user x = uid \<and> sale_isArchived x = False \<and> previousPeriodStart s e \<le> saleDate x
                \<and> saleDate x < s \<and> sale_currency x = cur)
          = (\<lambda>x. sale_user x = uid \<and> \<not> sale_isArchived x \<and> sale_currency x = cur
                \<and> s - (e - s) \<le> saleDate x \<and> saleDate x < s)"
    by (auto simp: previousPeriodStart_def Let_def)
  show "previous_totalSales
      (first_or (previousSalesMetrics uid (previousPeriodStart s e) s cur ss)
         \<lparr>previous_totalRevenue = Num 0, previous_totalSales = 0\<rparr>) =
     int (length (filter (\<lambda>x. sale_user x = uid \<and> \<not> sale_isArchived x \<and> sale_currency x = cur
                              \<and> s - (e - s) \<le> saleDate x \<and> saleDate x < s) ss))"
    unfolding previousSalesMetrics_def eq by (simp add: group_all_def first_or_def)
  show "previous_totalRevenue
      (first_or (previousSalesMetrics uid (previousPeriodStart s e) s cur ss)
         \<lparr>previous_totalRevenue = Num 0, previous_totalSales = 0\<rparr>) =
     nsum (map (\<lambda>x. double_of (salePrice x))
       (filter (\<lambda>x. sale_user x = uid \<and> \<not> sale_isArchived x \<and> sale_currency x = cur
                              \<and> s - (e - s) \<le> saleDate x \<and> saleDate x < s) ss))"
    unfolding previousSalesMetrics_def eq by (simp add: group_all_def first_or_def nsum_Nil)
qed

text \<open>
  Claim C8. The calendar fields are those of the server's local time. For every clock reading
  \<open>now\<close> (outside the local years 0 to 99, which the \<open>Date\<close> constructor reads as years of the
  twentieth century), the period \<open>quarter\<close> ends at \<open>now\<close> and starts at the instant of local
  midnight of day 1 of the month with index \<open>floor(month / 3) * 3\<close> in the local year of \<open>now\<close>,
  the first month of the block of three months that contains the local month of \<open>now\<close>; where
  the time zone has that local midnight, the local fields of the start read back as that
  year, that month and day 1. For every period, the growth figures compare with the sales
  dated from \<open>start - (end - start)\<close> inclusive to \<open>start\<close> exclusive: a window as long as the
  period so far that ends where the period starts.
\<close>

theorem quarter_period_and_previous_window:
  "(getFullYear tz now < 0 \<or> 99 < getFullYear tz now \<longrightarrow>
      (let L = MakeDate (MakeDay (getFullYear tz now) (getMonth tz now div 3 * 3) 1) 0;
           s = period_startDate (dashboard tz u (Some Quarter) qc now d)
       in period_endDate (dashboard tz u (Some Quarter) qc now d) = now
          \<and> s = UTC tz L
          \<and> YearFromTime L = getFullYear tz now
          \<and> MonthFromTime L = getMonth tz now div 3 * 3
          \<and> DateFromTime L = 1
          \<and> L mod msPerDay = 0
          \<and> MonthFromTime L \<le> getMonth tz now
          \<and> getMonth tz now < MonthFromTime L + 3
          \<and> (offset_at tz (UTC tz L) = offset_of_local tz L \<longrightarrow>
                LocalTime tz s = L
                \<and> getFullYear tz s = getFullYear tz now
                \<and> getMonth tz s = getMonth tz now div 3 * 3
                \<and> getDate tz s = 1)))
   \<and> (let s = period_startDate (dashboard tz u qp qc now d);
           e = period_endDate (dashboard tz u qp qc now d);
           previousData =
             first_or (previousSalesMetrics (user_id u) (previousPeriodStart s e) s
                         (case qc of None \<Rightarrow> user_currency u | Some c \<Rightarrow> c) (sales d))
               \<lparr>previous_totalRevenue = Num 0, previous_totalSales = 0\<rparr>;
           W = filter (\<lambda>x. sale_user x = user_id u \<and> \<not> sale_isArchived x
                         \<and> sale_currency x = (case qc of None \<Rightarrow> user_currency u | Some c \<Rightarrow> c)
                         \<and> s - (e - s) \<le> saleDate x \<and> saleDate x < s) (sales d)
       in e = now
          \<and> previousPeriodStart s e = s - (e - s)
          \<and> profit_revenueGrowth (dashboard tz u qp qc now d) =
              revenueGrowth (metrics_sales (dashboard tz u qp qc now d)) previousData
          \<and> sales_growth (dashboard tz u qp qc now d) =
              salesGrowth (metrics_sales (dashboard tz u qp qc now d)) previousData
          \<and> previous_totalSales previousData = int (length W)
          \<and> previous_totalRevenue previousData = nsum (map (\<lambda>x. double_of (salePrice x)) W))"
proof (intro conjI impI)
  assume y: "getFullYear tz now < 0 \<or> 99 < getFullYear tz now"
  define L where "L = MakeDate (MakeDay (getFullYear tz now) (getMonth tz now div 3 * 3) 1) 0"
  note ql = quarter_local_midnight [OF y, folded L_def]
  have m: "0 \<le> getMonth tz now" "getMonth tz now \<le> 11"
    unfolding getMonth_def by (rule MonthFromTime_range)+
  have s: "period_startDate (dashboard tz u (Some Quarter) qc now d) = UTC tz L"
    using ql(1) by (simp add: dashboard_period)
  have readback: "LocalTime tz (UTC tz L) = L
      \<and> getFullYear tz (UTC tz L) = getFullYear tz now
      \<and> getMonth tz (UTC tz L) = getMonth tz now div 3 * 3
      \<and> getDate tz (UTC tz L) = 1"
    if "offset_at tz (UTC tz L) = offset_of_local tz L"
    using LocalTime_UTC [OF that] ql(2,3,4)
    by (simp add: getFullYear_def getMonth_def getDate_def)
  show "let L = MakeDate (MakeDay (getFullYear tz now) (getMonth tz now div 3 * 3) 1) 0;
           s = period_startDate (dashboard tz u (Some Quarter) qc now d)
       in period_endDate (dashboard tz u (Some Quarter) qc now d) = now
          \<and> s = UTC tz L
          \<and> YearFromTime L = getFullYear tz now
          \<and> MonthFromTime L = getMonth tz now div 3 * 3
          \<and> DateFromTime L = 1
          \<and> L mod msPerDay = 0
          \<and> MonthFromTime L \<le> getMonth tz now
          \<and> getMonth tz now < MonthFromTime L + 3
          \<and> (offset_at tz (UTC tz L) = offset_of_local tz L \<longrightarrow>
                LocalTime tz s = L
                \<and> getFullYear tz s = getFullYear tz now
                \<and> getMonth tz s = getMonth tz now div 3 * 3
                \<and> getDate tz s = 1)"
    unfolding Let_def L_def [symmetric] s
    using ql(2,3,4,5) quarter_month(3,4) [OF m] readback
    by (simp add: dashboard_period)
next
  show "let s = period_startDate (dashboard tz u qp qc now d);
           e = period_endDate (dashboard tz u qp qc now d);
           previousData =
             first_or (previousSalesMetrics (user_id u) (previousPeriodStart s e) s
                         (case qc of None \<Rightarrow> user_currency u | Some c \<Rightarrow> c) (sales d))
               \<lparr>previous_totalRevenue = Num 0, previous_totalSales = 0\<rparr>;
           W = filter (\<lambda>x. sale_user x = user_id u \<and> \<not> sale_isArchived x
                         \<and> sale_currency x = (case qc of None \<Rightarrow> user_currency u | Some c \<Rightarrow> c)
                         \<and> s - (e - s) \<le> saleDate x \<and> saleDate x < s) (sales d)
       in e = now
          \<and> previousPeriodStart s e = s - (e - s)
          \<and> profit_revenueGrowth (dashboard tz u qp qc now d) =
              revenueGrowth (metrics_sales (dashboard tz u qp qc now d)) previousData
          \<and> sales_growth (dashboard tz u qp qc now d) =
              salesGrowth (metrics_sales (dashboard tz u qp qc now d)) previousData
          \<and> previous_totalSales previousData = int (length W)
          \<and> previous_totalRevenue previousData = nsum (map (\<lambda>x. double_of (salePrice x)) W)"
    unfolding Let_def dashboard_growth [symmetric] previous_window
    by (simp add: dashboard_period previousPeriodStart_def)
qed

lemmas calendar_eval =
  getFullYear_def getMonth_def getDate_def LocalTime_def UTC_def YearFromTime_def
  YearFromDay_def MonthFromTime_def DateFromTime_def DayWithinYear_def InLeapYear_def
  DaysInYear_def DayFromYear_def DayFromMonth_def Day_def MakeDay_def MakeDate_def msPerDay_def

lemma eval_new_york_noon:
  "getFullYear new_york_2024 noon_15_May_2024 = 2024"
  "getMonth new_york_2024 noon_15_May_2024 = 4"
  by (simp_all add: calendar_eval new_york_2024_def noon_15_May_2024_def)

lemma eval_new_york_late:
  "getFullYear new_york_2024 late_31_March_2024 = 2024"
  "getMonth new_york_2024 late_31_March_2024 = 2"
  by (simp_all add: calendar_eval new_york_2024_def late_31_March_2024_def)

lemma eval_utc_noon:
  "getFullYear utc noon_15_May_2024 = 2024"
  "getMonth utc noon_15_May_2024 = 4"
  by (simp_all add: calendar_eval utc_def noon_15_May_2024_def)

lemma eval_first_days:
  "MakeDate (MakeDay 2024 (4 div 3 * 3) 1) 0 = 1711929600000"
  "MakeDate (MakeDay 2024 (2 div 3 * 3) 1) 0 = 1704067200000"
  by (simp_all add: calendar_eval)

lemma eval_zones:
  "UTC new_york_2024 1711929600000 = 1711944000000"
  "UTC new_york_2024 1704067200000 = 1704085200000"
  "UTC utc 1711929600000 = 1711929600000"
  "offset_at new_york_2024 1711944000000 = offset_of_local new_york_2024 1711929600000"
  "offset_at new_york_2024 1704085200000 = offset_of_local new_york_2024 1704067200000"
  by (simp_all add: new_york_2024_def utc_def UTC_def)

theorem quarter_period_and_previous_window_witness:
  "99 < getFullYear new_york_2024 noon_15_May_2024
   \<and> offset_at new_york_2024 1711944000000 = offset_of_local new_york_2024 1711929600000
   \<and> period_startDate (dashboard new_york_2024 seller (Some Quarter) None noon_15_May_2024
         empty_db) = 1711944000000
   \<and> getFullYear new_york_2024 (period_startDate
         (dashboard new_york_2024 seller (Some Quarter) None noon_15_May_2024 empty_db)) = 2024
   \<and> getMonth new_york_2024 (period_startDate
         (dashboard new_york_2024 seller (Some Quarter) None noon_15_May_2024 empty_db)) = 3
   \<and> getDate new_york_2024 (period_startDate
         (dashboard new_york_2024 seller (Some Quarter) None noon_15_May_2024 empty_db)) = 1
   \<and> period_endDate (dashboard new_york_2024 seller (Some Quarter) None noon_15_May_2024
         empty_db) = noon_15_May_2024
   \<and> period_startDate (dashboard new_york_2024 seller (Some Quarter) None late_31_March_2024
         empty_db) = 1704085200000
   \<and> getMonth new_york_2024 (period_startDate
         (dashboard new_york_2024 seller (Some Quarter) None late_31_March_2024 empty_db)) = 0
   \<and> period_startDate (dashboard utc seller (Some Quarter) None noon_15_May_2024 empty_db)
       = 1711929600000"
proof -
  have y: "99 < getFullYear new_york_2024 noon_15_May_2024"
    "99 < getFullYear new_york_2024 late_31_March_2024"
    "99 < getFullYear utc noon_15_May_2024"
    by (simp_all add: eval_new_york_noon eval_new_york_late eval_utc_noon)
  note a = quarter_period_and_previous_window
      [of new_york_2024 noon_15_May_2024 seller None empty_db None,
       THEN conjunct1, THEN mp, OF disjI2, OF y(1),
       unfolded Let_def eval_new_york_noon eval_first_days eval_zones(1)]
  note b = quarter_period_and_previous_window
      [of new_york_2024 late_31_March_2024 seller None empty_db None,
       THEN conjunct1, THEN mp, OF disjI2, OF y(2),
       unfolded Let_def eval_new_york_late eval_first_days eval_zones(2)]
  note c = quarter_period_and_previous_window
      [of utc noon_15_May_2024 seller None empty_db None,
       THEN conjunct1, THEN mp, OF disjI2, OF y(3),
       unfolded Let_def eval_utc_noon eval_first_days eval_zones(3)]
  have "(2 div 3 * 3 :: int) = 0" and "(4 div 3 * 3 :: int) = 3" by simp_all
  with y(1) eval_zones(4,5) a b c show ?thesis by (elim conjE) simp
qed

end
